theory Spec2Isabelle
  imports Complex_Main
begin

section \<open>JavaScript numbers\<close>

text \<open>
  The simulation computes with JavaScript numbers.  They are modelled as exact reals
  extended by the three non-finite values of IEEE 754: rounding, overflow, underflow and
  the sign of zero are not modelled (the specification states its bounds "up to
  epsilon"), but what a division by zero produces, and how \<open>NaN\<close> and the infinities
  then behave in arithmetic and in comparisons, is.  A division of a non-zero number by
  zero takes the sign of the numerator (the zero is taken as \<open>+0\<close>).  The model is exact
  where a computation involves no rounding, as in the propagation of \<open>NaN\<close>; an equation
  or a bound proved on finite numbers holds of the program up to rounding, and for
  operands that neither overflow nor underflow.
\<close>

datatype jsnum = Num real | PosInf | NegInf | NaN

fun jneg :: "jsnum \<Rightarrow> jsnum" where
  "jneg (Num a) = Num (- a)"
| "jneg PosInf = NegInf"
| "jneg NegInf = PosInf"
| "jneg NaN = NaN"

fun jadd :: "jsnum \<Rightarrow> jsnum \<Rightarrow> jsnum" where
  "jadd (Num a) (Num b) = Num (a + b)"
| "jadd NaN _ = NaN"
| "jadd _ NaN = NaN"
| "jadd PosInf NegInf = NaN"
| "jadd NegInf PosInf = NaN"
| "jadd PosInf _ = PosInf"
| "jadd _ PosInf = PosInf"
| "jadd NegInf _ = NegInf"
| "jadd _ NegInf = NegInf"

definition jsub :: "jsnum \<Rightarrow> jsnum \<Rightarrow> jsnum" where
  "jsub a b = jadd a (jneg b)"

text \<open>An infinity of the given sign: \<open>True\<close> is positive.\<close>

fun signed_inf :: "bool \<Rightarrow> jsnum" where
  "signed_inf True = PosInf"
| "signed_inf False = NegInf"

fun jmul :: "jsnum \<Rightarrow> jsnum \<Rightarrow> jsnum" where
  "jmul (Num a) (Num b) = Num (a * b)"
| "jmul NaN _ = NaN"
| "jmul _ NaN = NaN"
| "jmul (Num a) PosInf = (if a = 0 then NaN else signed_inf (0 < a))"
| "jmul (Num a) NegInf = (if a = 0 then NaN else signed_inf (a < 0))"
| "jmul PosInf (Num b) = (if b = 0 then NaN else signed_inf (0 < b))"
| "jmul NegInf (Num b) = (if b = 0 then NaN else signed_inf (b < 0))"
| "jmul PosInf PosInf = PosInf"
| "jmul PosInf NegInf = NegInf"
| "jmul NegInf PosInf = NegInf"
| "jmul NegInf NegInf = PosInf"

fun jdiv :: "jsnum \<Rightarrow> jsnum \<Rightarrow> jsnum" where
  "jdiv (Num a) (Num b) =
     (if b = 0 then (if a = 0 then NaN else signed_inf (0 < a)) else Num (a / b))"
| "jdiv NaN _ = NaN"
| "jdiv _ NaN = NaN"
| "jdiv (Num a) PosInf = Num 0"
| "jdiv (Num a) NegInf = Num 0"
| "jdiv PosInf (Num b) = signed_inf (0 \<le> b)"
| "jdiv NegInf (Num b) = signed_inf (b < 0)"
| "jdiv PosInf PosInf = NaN"
| "jdiv PosInf NegInf = NaN"
| "jdiv NegInf PosInf = NaN"
| "jdiv NegInf NegInf = NaN"

text \<open>\<open>Math.sqrt\<close>.\<close>

fun jsqrt :: "jsnum \<Rightarrow> jsnum" where
  "jsqrt (Num a) = (if a < 0 then NaN else Num (sqrt a))"
| "jsqrt PosInf = PosInf"
| "jsqrt NegInf = NaN"
| "jsqrt NaN = NaN"

text \<open>The comparison \<open>a < b\<close>; \<open>a > b\<close> is \<open>jless b a\<close>.  Every comparison with \<open>NaN\<close> is false.\<close>

fun jless :: "jsnum \<Rightarrow> jsnum \<Rightarrow> bool" where
  "jless (Num a) (Num b) = (a < b)"
| "jless NaN _ = False"
| "jless _ NaN = False"
| "jless NegInf NegInf = False"
| "jless NegInf _ = True"
| "jless _ NegInf = False"
| "jless PosInf _ = False"
| "jless _ PosInf = True"

text \<open>\<open>a <= b\<close>, used to state bounds.\<close>

fun jle :: "jsnum \<Rightarrow> jsnum \<Rightarrow> bool" where
  "jle (Num a) (Num b) = (a \<le> b)"
| "jle NaN _ = False"
| "jle _ NaN = False"
| "jle NegInf _ = True"
| "jle _ PosInf = True"
| "jle _ NegInf = False"
| "jle PosInf _ = False"

text \<open>\<open>v || 0\<close> on a number: the falsy numbers are zero and \<open>NaN\<close>.\<close>

definition or_zero :: "jsnum \<Rightarrow> jsnum" where
  "or_zero v = (if v = NaN \<or> v = Num 0 then Num 0 else v)"

fun is_finite :: "jsnum \<Rightarrow> bool" where
  "is_finite (Num a) = True"
| "is_finite _ = False"

section \<open>The Vector class\<close>

text \<open>
  A vector is a value: no two objects of the program share a \<open>Vector\<close> (every steering
  vector is freshly constructed, and \<open>copy\<close> is called before an operand would be
  modified), so the in-place methods are functions returning the modified receiver.
  The fields \<open>x\<close> and \<open>y\<close> are named \<open>vx\<close> and \<open>vy\<close>.
\<close>

record Vector =
  vx :: jsnum
  vy :: jsnum

definition Vector_new :: "jsnum \<Rightarrow> jsnum \<Rightarrow> Vector" where
  "Vector_new a b = \<lparr>vx = or_zero a, vy = or_zero b\<rparr>"

definition Vector_add :: "Vector \<Rightarrow> Vector \<Rightarrow> Vector" where
  "Vector_add v other = \<lparr>vx = jadd (vx v) (vx other), vy = jadd (vy v) (vy other)\<rparr>"

definition Vector_sub :: "Vector \<Rightarrow> Vector \<Rightarrow> Vector" where
  "Vector_sub v other = \<lparr>vx = jsub (vx v) (vx other), vy = jsub (vy v) (vy other)\<rparr>"

definition Vector_mult :: "Vector \<Rightarrow> jsnum \<Rightarrow> Vector" where
  "Vector_mult v scalar = \<lparr>vx = jmul (vx v) scalar, vy = jmul (vy v) scalar\<rparr>"

definition Vector_div :: "Vector \<Rightarrow> jsnum \<Rightarrow> Vector" where
  "Vector_div v scalar = \<lparr>vx = jdiv (vx v) scalar, vy = jdiv (vy v) scalar\<rparr>"

definition Vector_mag :: "Vector \<Rightarrow> jsnum" where
  "Vector_mag v = jsqrt (jadd (jmul (vx v) (vx v)) (jmul (vy v) (vy v)))"

definition Vector_normalize :: "Vector \<Rightarrow> Vector" where
  "Vector_normalize v = (let m = Vector_mag v in if jless (Num 0) m then Vector_div v m else v)"

definition Vector_setMag :: "Vector \<Rightarrow> jsnum \<Rightarrow> Vector" where
  "Vector_setMag v mag = Vector_mult (Vector_normalize v) mag"

definition Vector_limit :: "Vector \<Rightarrow> jsnum \<Rightarrow> Vector" where
  "Vector_limit v mx = (if jless mx (Vector_mag v) then Vector_setMag v mx else v)"

definition Vector_copy :: "Vector \<Rightarrow> Vector" where
  "Vector_copy v = Vector_new (vx v) (vy v)"

text \<open>\<open>Math.pow(a, 2)\<close> is the product of \<open>a\<close> with itself.\<close>

definition Vector_dist :: "Vector \<Rightarrow> Vector \<Rightarrow> jsnum" where
  "Vector_dist v1 v2 =
     jsqrt (jadd (jmul (jsub (vx v1) (vx v2)) (jsub (vx v1) (vx v2)))
                 (jmul (jsub (vy v1) (vy v2)) (jsub (vy v1) (vy v2))))"

text \<open>A vector both of whose components are finite numbers.\<close>

definition finite_vector :: "Vector \<Rightarrow> bool" where
  "finite_vector v = (is_finite (vx v) \<and> is_finite (vy v))"

section \<open>Simulation parameters\<close>

text \<open>
  \<open>MAX_FORCE\<close>, \<open>MAX_SPEED\<close>, \<open>ORB_RADIUS\<close> and \<open>ORB_STRENGTH\<close> are never assigned after
  their declaration.  The perception radius, the three rule weights and the boundary mode
  are changed by the controls between frames and are collected in a record.
\<close>

definition MAX_FORCE :: jsnum where
  "MAX_FORCE = Num (1 / 2)"

definition MAX_SPEED :: jsnum where
  "MAX_SPEED = Num 5"

definition ORB_RADIUS :: jsnum where
  "ORB_RADIUS = Num 10"

definition ORB_STRENGTH :: jsnum where
  "ORB_STRENGTH = Num 40"

record Params =
  PERCEPTION_RADIUS :: jsnum
  SEPARATION_WEIGHT :: jsnum
  ALIGNMENT_WEIGHT :: jsnum
  COHESION_WEIGHT :: jsnum
  wrap :: bool

text \<open>The canvas: its \<open>width\<close> and \<open>height\<close> attributes are non-negative integers.\<close>

record Canvas =
  width :: nat
  height :: nat

section \<open>Boids and orbs\<close>

text \<open>
  The field \<open>size\<close> of a boid is named \<open>bsize\<close>.  The boids are objects shared between
  the population array and the receiver \<open>this\<close> of each method, and \<open>other !== this\<close>
  compares object identities: a boid is therefore a reference into a store, and the
  population is a list of references.
\<close>

record Boid =
  position :: Vector
  velocity :: Vector
  acceleration :: Vector
  bsize :: jsnum
  color :: string

type_synonym ref = nat

type_synonym store = "ref \<Rightarrow> Boid"

datatype orb_type = Attractor | Repulsor

text \<open>An orb; its fields \<open>position\<close>, \<open>type\<close> and \<open>color\<close> carry the prefix \<open>orb_\<close>.\<close>

record Orb =
  orb_position :: Vector
  radius :: jsnum
  orb_type :: orb_type
  orb_color :: string

definition applyForce :: "Boid \<Rightarrow> Vector \<Rightarrow> Boid" where
  "applyForce b force = b\<lparr>acceleration := Vector_add (acceleration b) force\<rparr>"

subsection \<open>The three flocking rules\<close>

text \<open>
  Each rule scans the population with a loop that carries \<open>steering\<close> and \<open>total\<close> (here \<open>tot\<close>).
  The loops only read the store.
\<close>

fun separation_loop :: "store \<Rightarrow> ref \<Rightarrow> jsnum \<Rightarrow> ref list \<Rightarrow> Vector \<times> nat \<Rightarrow> Vector \<times> nat" where
  "separation_loop h self desiredSeparation [] (steering, tot) = (steering, tot)"
| "separation_loop h self desiredSeparation (other # rest) (steering, tot) =
     (if other \<noteq> self then
        (let d = Vector_dist (position (h self)) (position (h other)) in
         if jless d desiredSeparation then
           (let diff = Vector_sub (Vector_copy (position (h self))) (position (h other));
                diff = Vector_div diff (jmul d d)
            in separation_loop h self desiredSeparation rest (Vector_add steering diff, Suc tot))
         else separation_loop h self desiredSeparation rest (steering, tot))
      else separation_loop h self desiredSeparation rest (steering, tot))"

definition separation :: "store \<Rightarrow> ref \<Rightarrow> ref list \<Rightarrow> Vector" where
  "separation h self boids =
     (let desiredSeparation = jmul (bsize (h self)) (Num 6);
          (steering, tot) = separation_loop h self desiredSeparation boids (Vector_new (Num 0) (Num 0), 0)
      in if 0 < tot then
           (let steering = Vector_div steering (Num (real tot));
                steering = Vector_setMag steering MAX_SPEED;
                steering = Vector_sub steering (velocity (h self))
            in Vector_limit steering MAX_FORCE)
         else steering)"

fun alignment_loop :: "Params \<Rightarrow> store \<Rightarrow> ref \<Rightarrow> ref list \<Rightarrow> Vector \<times> nat \<Rightarrow> Vector \<times> nat" where
  "alignment_loop P h self [] (steering, tot) = (steering, tot)"
| "alignment_loop P h self (other # rest) (steering, tot) =
     (if other \<noteq> self \<and>
         jless (Vector_dist (position (h self)) (position (h other))) (PERCEPTION_RADIUS P)
      then alignment_loop P h self rest (Vector_add steering (velocity (h other)), Suc tot)
      else alignment_loop P h self rest (steering, tot))"

definition alignment :: "Params \<Rightarrow> store \<Rightarrow> ref \<Rightarrow> ref list \<Rightarrow> Vector" where
  "alignment P h self boids =
     (let (steering, tot) = alignment_loop P h self boids (Vector_new (Num 0) (Num 0), 0)
      in if 0 < tot then
           (let steering = Vector_div steering (Num (real tot));
                steering = Vector_setMag steering MAX_SPEED;
                steering = Vector_sub steering (velocity (h self))
            in Vector_limit steering MAX_FORCE)
         else steering)"

fun cohesion_loop :: "Params \<Rightarrow> store \<Rightarrow> ref \<Rightarrow> ref list \<Rightarrow> Vector \<times> nat \<Rightarrow> Vector \<times> nat" where
  "cohesion_loop P h self [] (steering, tot) = (steering, tot)"
| "cohesion_loop P h self (other # rest) (steering, tot) =
     (if other \<noteq> self \<and>
         jless (Vector_dist (position (h self)) (position (h other))) (PERCEPTION_RADIUS P)
      then cohesion_loop P h self rest (Vector_add steering (position (h other)), Suc tot)
      else cohesion_loop P h self rest (steering, tot))"

definition cohesion :: "Params \<Rightarrow> store \<Rightarrow> ref \<Rightarrow> ref list \<Rightarrow> Vector" where
  "cohesion P h self boids =
     (let (steering, tot) = cohesion_loop P h self boids (Vector_new (Num 0) (Num 0), 0)
      in if 0 < tot then
           (let steering = Vector_div steering (Num (real tot));
                steering = Vector_sub steering (position (h self));
                steering = Vector_setMag steering MAX_SPEED;
                steering = Vector_sub steering (velocity (h self))
            in Vector_limit steering MAX_FORCE)
         else steering)"

text \<open>\<open>flock\<close> returns the receiver after the three forces were added to its acceleration.\<close>

definition flock :: "Params \<Rightarrow> store \<Rightarrow> ref \<Rightarrow> ref list \<Rightarrow> Boid" where
  "flock P h self boids =
     (let sep = separation h self boids;
          ali = alignment P h self boids;
          coh = cohesion P h self boids;
          sep = Vector_mult sep (SEPARATION_WEIGHT P);
          ali = Vector_mult ali (ALIGNMENT_WEIGHT P);
          coh = Vector_mult coh (COHESION_WEIGHT P)
      in applyForce (applyForce (applyForce (h self) sep) ali) coh)"

subsection \<open>Orb forces\<close>

text \<open>The body of the loop of \<open>applyOrbForces\<close>, for one orb.\<close>

definition applyOrbForce :: "Params \<Rightarrow> Boid \<Rightarrow> Orb \<Rightarrow> Boid" where
  "applyOrbForce P b orb =
     (let d = Vector_dist (position b) (orb_position orb) in
      if jless (Num 1) d \<and> jless d (jmul (PERCEPTION_RADIUS P) (Num 2)) then
        (let diff = Vector_sub (Vector_copy (orb_position orb)) (position b);
             diff = Vector_normalize diff;
             strength = (if orb_type orb = Attractor then jdiv ORB_STRENGTH d
                         else jdiv (jneg ORB_STRENGTH) d);
             force = Vector_mult diff strength
         in applyForce b (Vector_limit force MAX_FORCE))
      else b)"

fun applyOrbForces :: "Params \<Rightarrow> Boid \<Rightarrow> Orb list \<Rightarrow> Boid" where
  "applyOrbForces P b [] = b"
| "applyOrbForces P b (orb # rest) = applyOrbForces P (applyOrbForce P b orb) rest"

subsection \<open>Integration and boundaries\<close>

definition update :: "Boid \<Rightarrow> Boid" where
  "update b =
     (let v = Vector_add (velocity b) (acceleration b);
          v = Vector_limit v MAX_SPEED;
          p = Vector_add (position b) v;
          a = Vector_mult (acceleration b) (Num 0)
      in b\<lparr>position := p, velocity := v, acceleration := a\<rparr>)"

definition edges :: "Canvas \<Rightarrow> bool \<Rightarrow> Boid \<Rightarrow> Boid" where
  "edges canvas wrp b =
     (let w = Num (real (width canvas)); ht = Num (real (height canvas)) in
      if wrp then
        (let p = position b;
             p = (if jless w (vx p) then p\<lparr>vx := Num 0\<rparr>
                  else if jless (vx p) (Num 0) then p\<lparr>vx := w\<rparr>
                  else p);
             p = (if jless ht (vy p) then p\<lparr>vy := Num 0\<rparr>
                  else if jless (vy p) (Num 0) then p\<lparr>vy := ht\<rparr>
                  else p)
         in b\<lparr>position := p\<rparr>)
      else
        (let p = position b; v = velocity b;
             (p, v) = (if jless w (vx p)
                       then (p\<lparr>vx := jsub w (Num 1)\<rparr>, v\<lparr>vx := jmul (vx v) (Num (- 1))\<rparr>)
                       else if jless (vx p) (Num 0)
                       then (p\<lparr>vx := Num 1\<rparr>, v\<lparr>vx := jmul (vx v) (Num (- 1))\<rparr>)
                       else (p, v));
             (p, v) = (if jless ht (vy p)
                       then (p\<lparr>vy := jsub ht (Num 1)\<rparr>, v\<lparr>vy := jmul (vy v) (Num (- 1))\<rparr>)
                       else if jless (vy p) (Num 0)
                       then (p\<lparr>vy := Num 1\<rparr>, v\<lparr>vy := jmul (vy v) (Num (- 1))\<rparr>)
                       else (p, v))
         in b\<lparr>position := p, velocity := v\<rparr>))"

subsection \<open>The animation loop\<close>

text \<open>
  One frame: the loop over the population of \<open>animate\<close>.  Each boid is modified in place,
  so the store is written after each boid's step and the following boids scan the
  written store.  Drawing does not change the simulation's state and is left out; the
  canvas is the one the frame has resized.
\<close>

definition boid_step :: "Params \<Rightarrow> Canvas \<Rightarrow> Orb list \<Rightarrow> ref list \<Rightarrow> store \<Rightarrow> ref \<Rightarrow> Boid" where
  "boid_step P canvas orbs boids h boid =
     edges canvas (wrap P) (update (applyOrbForces P (flock P h boid boids) orbs))"

fun animate_loop :: "Params \<Rightarrow> Canvas \<Rightarrow> Orb list \<Rightarrow> ref list \<Rightarrow> store \<Rightarrow> ref list \<Rightarrow> store" where
  "animate_loop P canvas orbs boids h [] = h"
| "animate_loop P canvas orbs boids h (boid # rest) =
     animate_loop P canvas orbs boids (h(boid := boid_step P canvas orbs boids h boid)) rest"

definition animate :: "Params \<Rightarrow> Canvas \<Rightarrow> Orb list \<Rightarrow> ref list \<Rightarrow> store \<Rightarrow> store" where
  "animate P canvas orbs boids h = animate_loop P canvas orbs boids h boids"

text \<open>
  The store that the boid at index \<open>i\<close> of the population scans in a frame that starts in
  the store \<open>h\<close>: the state of the loop of \<open>animate\<close> after its first \<open>i\<close> iterations.
\<close>

definition scanned_store :: "Params \<Rightarrow> Canvas \<Rightarrow> Orb list \<Rightarrow> ref list \<Rightarrow> store \<Rightarrow> nat \<Rightarrow> store" where
  "scanned_store P canvas orbs boids h i = animate_loop P canvas orbs boids h (take i boids)"

subsection \<open>Pointer input\<close>

text \<open>
  The fields of a mouse event and of the canvas's bounding rectangle that the handlers
  read.  The client coordinates and the rectangle's offsets are finite numbers.
\<close>

record MouseEvent =
  button :: int
  clientX :: real
  clientY :: real
  defaultPrevented :: bool

record DOMRect =
  left :: real
  top :: real

definition mousedown :: "DOMRect \<Rightarrow> MouseEvent \<Rightarrow> Orb list \<Rightarrow> Orb list" where
  "mousedown rect event orbs =
     (let mouseX = jsub (Num (clientX event)) (Num (left rect));
          mouseY = jsub (Num (clientY event)) (Num (top rect))
      in if button event = 2 then
           orbs @ [\<lparr>orb_position = Vector_new mouseX mouseY, radius = ORB_RADIUS,
                    orb_type = Attractor, orb_color = ''rgba(0, 100, 255, 0.5)''\<rparr>]
         else if button event = 0 then
           orbs @ [\<lparr>orb_position = Vector_new mouseX mouseY, radius = ORB_RADIUS,
                    orb_type = Repulsor, orb_color = ''rgba(255, 0, 0, 0.5)''\<rparr>]
         else orbs)"

definition contextmenu :: "MouseEvent \<Rightarrow> MouseEvent" where
  "contextmenu e = e\<lparr>defaultPrevented := True\<rparr>"

section \<open>The separation steering of the specification\<close>

text \<open>
  The separation steering as the specification describes it, over the operations of the
  specification's vector type: \<open>normalize\<close> is a no-op when the magnitude is 0,
  \<open>withMagnitude(m)\<close> is \<open>normalize\<close> then \<open>scale(m)\<close>, and \<open>clampMagnitude(max)\<close> rescales
  to \<open>max\<close> only if the magnitude exceeds it.
\<close>

definition spec_normalize :: "Vector \<Rightarrow> Vector" where
  "spec_normalize v = (if Vector_mag v = Num 0 then v else Vector_div v (Vector_mag v))"

definition spec_withMagnitude :: "Vector \<Rightarrow> jsnum \<Rightarrow> Vector" where
  "spec_withMagnitude v m = Vector_mult (spec_normalize v) m"

definition spec_clampMagnitude :: "Vector \<Rightarrow> jsnum \<Rightarrow> Vector" where
  "spec_clampMagnitude v mx = (if jless mx (Vector_mag v) then spec_withMagnitude v mx else v)"

definition separation_reference :: "store \<Rightarrow> ref \<Rightarrow> ref list \<Rightarrow> Vector" where
  "separation_reference h self boids =
     (let p = position (h self);
          desiredSeparation = jmul (bsize (h self)) (Num 6);
          near = filter (\<lambda>other. other \<noteq> self \<and>
                   jless (Vector_dist p (position (h other))) desiredSeparation) boids;
          quotients = map (\<lambda>other. Vector_div (Vector_sub p (position (h other)))
                        (jmul (Vector_dist p (position (h other))) (Vector_dist p (position (h other))))) near;
          accumulator = foldl Vector_add \<lparr>vx = Num 0, vy = Num 0\<rparr> quotients;
          n = length near
      in if 0 < n then
           spec_clampMagnitude
             (Vector_sub (spec_withMagnitude (Vector_div accumulator (Num (real n))) MAX_SPEED)
                (velocity (h self)))
             MAX_FORCE
         else \<lparr>vx = Num 0, vy = Num 0\<rparr>)"

text \<open>A vector that is finite or has both components \<open>NaN\<close>.\<close>

definition finite_or_nan :: "Vector \<Rightarrow> bool" where
  "finite_or_nan v = (finite_vector v \<or> v = \<lparr>vx = NaN, vy = NaN\<rparr>)"

section \<open>Example data\<close>

text \<open>Concrete canvases, boids and events on which the theorems below are instantiated.\<close>

definition canvas0 :: Canvas where
  "canvas0 = \<lparr>width = 100, height = 80\<rparr>"

definition boid_outside :: Boid where
  "boid_outside = \<lparr>position = \<lparr>vx = Num 105, vy = Num (- 3)\<rparr>, velocity = \<lparr>vx = Num 3, vy = Num (- 4)\<rparr>,
     acceleration = \<lparr>vx = Num 0, vy = Num 0\<rparr>, bsize = Num 2, color = ''hsl(120, 70%, 65%)''\<rparr>"

definition boid_inside :: Boid where
  "boid_inside = \<lparr>position = \<lparr>vx = Num 10, vy = Num 10\<rparr>, velocity = \<lparr>vx = Num 3, vy = Num (- 4)\<rparr>,
     acceleration = \<lparr>vx = Num 0, vy = Num 0\<rparr>, bsize = Num 2, color = ''hsl(120, 70%, 65%)''\<rparr>"

definition boid_outside2 :: Boid where
  "boid_outside2 = \<lparr>position = \<lparr>vx = Num (- 1), vy = Num 81\<rparr>, velocity = \<lparr>vx = Num (- 3), vy = Num 4\<rparr>,
     acceleration = \<lparr>vx = Num 0, vy = Num 0\<rparr>, bsize = Num 2, color = ''hsl(120, 70%, 65%)''\<rparr>"

definition rect0 :: DOMRect where
  "rect0 = \<lparr>left = 8, top = 20\<rparr>"

definition press :: "int \<Rightarrow> MouseEvent" where
  "press n = \<lparr>button = n, clientX = 108, clientY = 70, defaultPrevented = False\<rparr>"

definition params0 :: Params where
  "params0 = \<lparr>PERCEPTION_RADIUS = Num 50, SEPARATION_WEIGHT = Num (3 / 2), ALIGNMENT_WEIGHT = Num 1,
     COHESION_WEIGHT = Num 1, wrap = True\<rparr>"

definition boid_at :: "real \<Rightarrow> real \<Rightarrow> real \<Rightarrow> real \<Rightarrow> Boid" where
  "boid_at px py ux uy = \<lparr>position = \<lparr>vx = Num px, vy = Num py\<rparr>, velocity = \<lparr>vx = Num ux, vy = Num uy\<rparr>,
     acceleration = \<lparr>vx = Num 0, vy = Num 0\<rparr>, bsize = Num 2, color = ''hsl(200, 70%, 65%)''\<rparr>"

definition coincident :: store where
  "coincident = (\<lambda>r. boid_at 10 10 0 0)"



definition orb_at :: "real \<Rightarrow> real \<Rightarrow> orb_type \<Rightarrow> Orb" where
  "orb_at ox oy t = \<lparr>orb_position = \<lparr>vx = Num ox, vy = Num oy\<rparr>, radius = ORB_RADIUS, orb_type = t,
     orb_color = (if t = Attractor then ''rgba(0, 100, 255, 0.5)'' else ''rgba(255, 0, 0, 0.5)'')\<rparr>"

text \<open>The factor by which the unit direction to an orb at distance \<open>r\<close> is scaled.\<close>

definition orb_factor :: "orb_type \<Rightarrow> real \<Rightarrow> real" where
  "orb_factor t r = (if t = Attractor then min (40 / r) (1 / 2) else - min (40 / r) (1 / 2))"

definition approach :: store where
  "approach = (\<lambda>r. if r = 0 then boid_at 0 40 5 0 else boid_at 50 40 0 0)"


section \<open>Vector arithmetic on finite components\<close>

lemma is_finite_iff: "is_finite a \<longleftrightarrow> (\<exists>r. a = Num r)"
  by (cases a) auto

lemma finite_vector_iff: "finite_vector v \<longleftrightarrow> (\<exists>a b. v = \<lparr>vx = Num a, vy = Num b\<rparr>)"
proof
  assume "finite_vector v"
  then obtain a b where "vx v = Num a" "vy v = Num b"
    by (auto simp: finite_vector_def is_finite_iff)
  then have "v = \<lparr>vx = Num a, vy = Num b\<rparr>" by simp
  then show "\<exists>a b. v = \<lparr>vx = Num a, vy = Num b\<rparr>" by blast
next
  assume "\<exists>a b. v = \<lparr>vx = Num a, vy = Num b\<rparr>"
  then show "finite_vector v" by (auto simp: finite_vector_def)
qed

lemma Vector_mag_Num:
  "Vector_mag \<lparr>vx = Num a, vy = Num b\<rparr> = Num (sqrt (a * a + b * b))"
  by (simp add: Vector_mag_def not_less)

lemma Vector_add_Num:
  "Vector_add \<lparr>vx = Num a, vy = Num b\<rparr> \<lparr>vx = Num c, vy = Num d\<rparr> = \<lparr>vx = Num (a + c), vy = Num (b + d)\<rparr>"
  by (simp add: Vector_add_def)

lemma Vector_sub_Num:
  "Vector_sub \<lparr>vx = Num a, vy = Num b\<rparr> \<lparr>vx = Num c, vy = Num d\<rparr> = \<lparr>vx = Num (a - c), vy = Num (b - d)\<rparr>"
  by (simp add: Vector_sub_def jsub_def)

lemma Vector_mult_Num:
  "Vector_mult \<lparr>vx = Num a, vy = Num b\<rparr> (Num c) = \<lparr>vx = Num (a * c), vy = Num (b * c)\<rparr>"
  by (simp add: Vector_mult_def)

lemma Vector_div_Num:
  "c \<noteq> 0 \<Longrightarrow> Vector_div \<lparr>vx = Num a, vy = Num b\<rparr> (Num c) = \<lparr>vx = Num (a / c), vy = Num (b / c)\<rparr>"
  by (simp add: Vector_div_def)

lemma Vector_copy_Num:
  "Vector_copy \<lparr>vx = Num a, vy = Num b\<rparr> = \<lparr>vx = Num a, vy = Num b\<rparr>"
  by (simp add: Vector_copy_def Vector_new_def or_zero_def)

lemma Vector_normalize_Num:
  "Vector_normalize \<lparr>vx = Num a, vy = Num b\<rparr> =
     \<lparr>vx = Num (a / sqrt (a * a + b * b)), vy = Num (b / sqrt (a * a + b * b))\<rparr>"
proof (cases "0 < sqrt (a * a + b * b)")
  case True
  then have "sqrt (a * a + b * b) \<noteq> 0" by linarith
  from Vector_div_Num [OF this] True show ?thesis
    by (simp add: Vector_normalize_def Vector_mag_Num)
next
  case False
  then have "a * a + b * b = 0"
    by (metis add_nonneg_nonneg not_less real_sqrt_gt_0_iff  order_le_less zero_le_square)
  then have "a = 0" "b = 0"
    by (simp_all add: sum_squares_eq_zero_iff)
  then show ?thesis
    by (simp add: Vector_normalize_def Vector_mag_Num Let_def)
qed

lemma Vector_setMag_Num:
  "Vector_setMag \<lparr>vx = Num a, vy = Num b\<rparr> (Num m) =
     \<lparr>vx = Num (a / sqrt (a * a + b * b) * m), vy = Num (b / sqrt (a * a + b * b) * m)\<rparr>"
  by (simp add: Vector_setMag_def Vector_normalize_Num Vector_mult_Num)

lemma Vector_limit_Num:
  "Vector_limit \<lparr>vx = Num a, vy = Num b\<rparr> (Num m) =
     (if m < sqrt (a * a + b * b)
      then \<lparr>vx = Num (a / sqrt (a * a + b * b) * m), vy = Num (b / sqrt (a * a + b * b) * m)\<rparr>
      else \<lparr>vx = Num a, vy = Num b\<rparr>)"
  by (simp add: Vector_limit_def Vector_mag_Num Vector_setMag_Num)

lemma scaled_squares:
  fixes a b m s :: real
  assumes "s * s = a * a + b * b" and "a * a + b * b \<noteq> 0"
  shows "(a / s * m) * (a / s * m) + (b / s * m) * (b / s * m) = m * m"
proof -
  have "(a / s * m) * (a / s * m) + (b / s * m) * (b / s * m) = (a * a + b * b) / (s * s) * (m * m)"
    by (simp add: field_simps flip: add_divide_distrib)
  also have "\<dots> = 1 * (m * m)"
    by (simp only: assms(1) divide_self [OF assms(2)])
  finally show ?thesis by simp
qed

lemma sqrt_scaled:
  assumes "0 < a * a + b * b" and "0 \<le> m"
  shows "sqrt ((a / sqrt (a * a + b * b) * m) * (a / sqrt (a * a + b * b) * m) +
               (b / sqrt (a * a + b * b) * m) * (b / sqrt (a * a + b * b) * m)) = m"
proof -
  have s: "sqrt (a * a + b * b) * sqrt (a * a + b * b) = a * a + b * b"
    using assms(1) by simp
  have nz: "a * a + b * b \<noteq> 0" using assms(1) by linarith
  show ?thesis
    using assms(2) by (simp only: scaled_squares [OF s nz] real_sqrt_mult_self) simp
qed

lemma Vector_limit_bound:
  assumes "0 \<le> m"
  shows "jle (Vector_mag (Vector_limit \<lparr>vx = Num a, vy = Num b\<rparr> (Num m))) (Num m)"
proof (cases "m < sqrt (a * a + b * b)")
  case True
  then have "0 < a * a + b * b" using assms
    by (metis order_le_less_trans real_sqrt_gt_0_iff)
  then show ?thesis using True assms
    by (simp add: Vector_limit_Num Vector_mag_Num sqrt_scaled del: times_divide_eq_left)
next
  case False
  then show ?thesis by (simp add: Vector_limit_Num Vector_mag_Num)
qed


section \<open>Boundaries\<close>

text \<open>
  Claim C6 (wrap mode).  After \<open>edges(true)\<close>: a position \<open>x\<close> beyond the canvas width
  becomes 0, an \<open>x\<close> below 0 becomes the canvas width, and likewise for \<open>y\<close> against the
  canvas height; velocity, acceleration, size and color are unchanged; a coordinate inside
  the bounds keeps its value, and a boid inside the bounds in both coordinates is
  unchanged entirely.
\<close>

theorem edges_wrap:
  "(jless (Num (real (width canvas))) (vx (position b)) \<longrightarrow>
      vx (position (edges canvas True b)) = Num 0) \<and>
   (jless (vx (position b)) (Num 0) \<longrightarrow>
      vx (position (edges canvas True b)) = Num (real (width canvas))) \<and>
   (jless (Num (real (height canvas))) (vy (position b)) \<longrightarrow>
      vy (position (edges canvas True b)) = Num 0) \<and>
   (jless (vy (position b)) (Num 0) \<longrightarrow>
      vy (position (edges canvas True b)) = Num (real (height canvas))) \<and>
   velocity (edges canvas True b) = velocity b \<and>
   acceleration (edges canvas True b) = acceleration b \<and>
   bsize (edges canvas True b) = bsize b \<and>
   color (edges canvas True b) = color b \<and>
   (jle (Num 0) (vx (position b)) \<and> jle (vx (position b)) (Num (real (width canvas))) \<longrightarrow>
      vx (position (edges canvas True b)) = vx (position b)) \<and>
   (jle (Num 0) (vy (position b)) \<and> jle (vy (position b)) (Num (real (height canvas))) \<longrightarrow>
      vy (position (edges canvas True b)) = vy (position b)) \<and>
   (jle (Num 0) (vx (position b)) \<and> jle (vx (position b)) (Num (real (width canvas))) \<and>
    jle (Num 0) (vy (position b)) \<and> jle (vy (position b)) (Num (real (height canvas))) \<longrightarrow>
      edges canvas True b = b)"
  by (cases "vx (position b)"; cases "vy (position b)") (auto simp: edges_def Let_def)

theorem edges_wrap_witness:
  "jless (Num (real (width canvas0))) (vx (position boid_outside)) \<and>
   jless (vy (position boid_outside)) (Num 0) \<and>
   position (edges canvas0 True boid_outside) = \<lparr>vx = Num 0, vy = Num 80\<rparr> \<and>
   velocity (edges canvas0 True boid_outside) = \<lparr>vx = Num 3, vy = Num (- 4)\<rparr> \<and>
   jless (vx (position boid_outside2)) (Num 0) \<and>
   jless (Num (real (height canvas0))) (vy (position boid_outside2)) \<and>
   position (edges canvas0 True boid_outside2) = \<lparr>vx = Num 100, vy = Num 0\<rparr> \<and>
   jle (Num 0) (vx (position boid_inside)) \<and>
   jle (vx (position boid_inside)) (Num (real (width canvas0))) \<and>
   jle (Num 0) (vy (position boid_inside)) \<and>
   jle (vy (position boid_inside)) (Num (real (height canvas0))) \<and>
   edges canvas0 True boid_inside = boid_inside"
  using edges_wrap [of canvas0 boid_outside] edges_wrap [of canvas0 boid_outside2]
    edges_wrap [of canvas0 boid_inside]
  by (simp add: canvas0_def boid_outside_def boid_outside2_def boid_inside_def Vector.equality)

text \<open>
  Claim C7 (bounce mode).  After \<open>edges(false)\<close>: a position \<open>x\<close> beyond the canvas width
  becomes \<open>width - 1\<close>, an \<open>x\<close> below 0 becomes 1, and in both cases \<open>velocity.x\<close> is
  multiplied by \<open>-1\<close>; a \<open>y\<close> beyond the canvas height becomes \<open>height - 1\<close>, a \<open>y\<close> below 0
  becomes 1, and in both cases \<open>velocity.y\<close> is multiplied by \<open>-1\<close>; a coordinate inside
  the bounds keeps its position and its velocity component; acceleration, size and color
  are unchanged.
\<close>

theorem edges_bounce:
  "(jless (Num (real (width canvas))) (vx (position b)) \<longrightarrow>
      vx (position (edges canvas False b)) = Num (real (width canvas) - 1) \<and>
      vx (velocity (edges canvas False b)) = jmul (vx (velocity b)) (Num (- 1))) \<and>
   (jless (vx (position b)) (Num 0) \<longrightarrow>
      vx (position (edges canvas False b)) = Num 1 \<and>
      vx (velocity (edges canvas False b)) = jmul (vx (velocity b)) (Num (- 1))) \<and>
   (jless (Num (real (height canvas))) (vy (position b)) \<longrightarrow>
      vy (position (edges canvas False b)) = Num (real (height canvas) - 1) \<and>
      vy (velocity (edges canvas False b)) = jmul (vy (velocity b)) (Num (- 1))) \<and>
   (jless (vy (position b)) (Num 0) \<longrightarrow>
      vy (position (edges canvas False b)) = Num 1 \<and>
      vy (velocity (edges canvas False b)) = jmul (vy (velocity b)) (Num (- 1))) \<and>
   (jle (Num 0) (vx (position b)) \<and> jle (vx (position b)) (Num (real (width canvas))) \<longrightarrow>
      vx (position (edges canvas False b)) = vx (position b) \<and>
      vx (velocity (edges canvas False b)) = vx (velocity b)) \<and>
   (jle (Num 0) (vy (position b)) \<and> jle (vy (position b)) (Num (real (height canvas))) \<longrightarrow>
      vy (position (edges canvas False b)) = vy (position b) \<and>
      vy (velocity (edges canvas False b)) = vy (velocity b)) \<and>
   acceleration (edges canvas False b) = acceleration b \<and>
   bsize (edges canvas False b) = bsize b \<and>
   color (edges canvas False b) = color b"
  by (cases "vx (position b)"; cases "vy (position b)")
     (auto simp: edges_def Let_def jsub_def split: prod.splits)

theorem edges_bounce_witness:
  "jless (Num (real (width canvas0))) (vx (position boid_outside)) \<and>
   jless (vy (position boid_outside)) (Num 0) \<and>
   position (edges canvas0 False boid_outside) = \<lparr>vx = Num 99, vy = Num 1\<rparr> \<and>
   velocity (edges canvas0 False boid_outside) = \<lparr>vx = Num (- 3), vy = Num 4\<rparr> \<and>
   jless (vx (position boid_outside2)) (Num 0) \<and>
   jless (Num (real (height canvas0))) (vy (position boid_outside2)) \<and>
   position (edges canvas0 False boid_outside2) = \<lparr>vx = Num 1, vy = Num 79\<rparr> \<and>
   velocity (edges canvas0 False boid_outside2) = \<lparr>vx = Num 3, vy = Num (- 4)\<rparr> \<and>
   jle (Num 0) (vx (position boid_inside)) \<and>
   jle (vx (position boid_inside)) (Num (real (width canvas0))) \<and>
   jle (Num 0) (vy (position boid_inside)) \<and>
   jle (vy (position boid_inside)) (Num (real (height canvas0))) \<and>
   position (edges canvas0 False boid_inside) = position boid_inside \<and>
   velocity (edges canvas0 False boid_inside) = velocity boid_inside"
  using edges_bounce [of canvas0 boid_outside] edges_bounce [of canvas0 boid_outside2]
    edges_bounce [of canvas0 boid_inside]
  by (simp add: canvas0_def boid_outside_def boid_outside2_def boid_inside_def Vector.equality)

section \<open>Pointer input\<close>

text \<open>
  Claim C9.  A press of button 0 appends a repulsor orb at the pointer's coordinates
  relative to the canvas, a press of button 2 appends an attractor orb there, a press of
  any other button appends nothing, and the handler of the context-menu event prevents
  the event's default action.
\<close>

theorem mousedown_places_orb:
  "(button event = 0 \<longrightarrow>
      mousedown rect event orbs =
        orbs @ [\<lparr>orb_position = \<lparr>vx = Num (clientX event - left rect), vy = Num (clientY event - top rect)\<rparr>,
                 radius = ORB_RADIUS, orb_type = Repulsor, orb_color = ''rgba(255, 0, 0, 0.5)''\<rparr>]) \<and>
   (button event = 2 \<longrightarrow>
      mousedown rect event orbs =
        orbs @ [\<lparr>orb_position = \<lparr>vx = Num (clientX event - left rect), vy = Num (clientY event - top rect)\<rparr>,
                 radius = ORB_RADIUS, orb_type = Attractor, orb_color = ''rgba(0, 100, 255, 0.5)''\<rparr>]) \<and>
   (button event \<noteq> 0 \<and> button event \<noteq> 2 \<longrightarrow> mousedown rect event orbs = orbs) \<and>
   defaultPrevented (contextmenu event)"
  by (simp add: mousedown_def contextmenu_def Vector_new_def or_zero_def jsub_def Let_def)

theorem mousedown_places_orb_witness:
  "button (press 0) = 0 \<and>
   mousedown rect0 (press 0) [] =
     [\<lparr>orb_position = \<lparr>vx = Num 100, vy = Num 50\<rparr>, radius = Num 10, orb_type = Repulsor,
       orb_color = ''rgba(255, 0, 0, 0.5)''\<rparr>] \<and>
   button (press 2) = 2 \<and>
   mousedown rect0 (press 2) [] =
     [\<lparr>orb_position = \<lparr>vx = Num 100, vy = Num 50\<rparr>, radius = Num 10, orb_type = Attractor,
       orb_color = ''rgba(0, 100, 255, 0.5)''\<rparr>] \<and>
   button (press 1) \<noteq> 0 \<and> button (press 1) \<noteq> 2 \<and>
   mousedown rect0 (press 1) [] = [] \<and>
   defaultPrevented (contextmenu (press 2))"
  using mousedown_places_orb [of "press 0" rect0 "[]"] mousedown_places_orb [of "press 2" rect0 "[]"]
    mousedown_places_orb [of "press 1" rect0 "[]"]
  by (simp add: press_def rect0_def ORB_RADIUS_def)

section \<open>Integration\<close>

lemma sep_coincident: "separation coincident 0 [0, 1] = \<lparr>vx = NaN, vy = NaN\<rparr>"
  by (simp add: separation_def coincident_def boid_at_def Let_def Vector_dist_def jsub_def
      Vector_copy_def Vector_new_def or_zero_def Vector_sub_def Vector_div_def Vector_add_def
      Vector_setMag_def Vector_normalize_def Vector_mag_def Vector_mult_def Vector_limit_def
      MAX_SPEED_def MAX_FORCE_def)

lemma ali_coincident: "alignment params0 coincident 0 [0, 1] = \<lparr>vx = Num 0, vy = Num 0\<rparr>"
  by (simp add: alignment_def coincident_def boid_at_def Let_def Vector_dist_def jsub_def params0_def
      Vector_copy_def Vector_new_def or_zero_def Vector_sub_def Vector_div_def Vector_add_def
      Vector_setMag_def Vector_normalize_def Vector_mag_def Vector_mult_def Vector_limit_def
      MAX_SPEED_def MAX_FORCE_def)

lemma coh_coincident: "cohesion params0 coincident 0 [0, 1] = \<lparr>vx = Num 0, vy = Num 0\<rparr>"
  by (simp add: cohesion_def coincident_def boid_at_def Let_def Vector_dist_def jsub_def params0_def
      Vector_copy_def Vector_new_def or_zero_def Vector_sub_def Vector_div_def Vector_add_def
      Vector_setMag_def Vector_normalize_def Vector_mag_def Vector_mult_def Vector_limit_def
      MAX_SPEED_def MAX_FORCE_def)

lemma flock_coincident:
  "flock params0 coincident 0 [0, 1] = (boid_at 10 10 0 0)\<lparr>acceleration := \<lparr>vx = NaN, vy = NaN\<rparr>\<rparr>"
  unfolding flock_def sep_coincident ali_coincident coh_coincident Let_def
  by (simp add: applyForce_def Vector_mult_def Vector_add_def params0_def coincident_def boid_at_def)

lemma update_coincident:
  "update (flock params0 coincident 0 [0, 1]) =
     (boid_at 10 10 0 0)\<lparr>position := \<lparr>vx = NaN, vy = NaN\<rparr>, velocity := \<lparr>vx = NaN, vy = NaN\<rparr>,
        acceleration := \<lparr>vx = NaN, vy = NaN\<rparr>\<rparr>"
  unfolding flock_coincident
  by (simp add: update_def boid_at_def Let_def Vector_add_def Vector_limit_def
      Vector_mag_def Vector_mult_def MAX_SPEED_def)

text \<open>
  Claim C1, at the input where the code breaks it.  Two boids with finite positions,
  velocities and accelerations stand at the same position.  In the frame's step of the
  first, \<open>separation\<close> divides zero by zero, \<open>flock\<close> accumulates a \<open>NaN\<close> acceleration, and
  in \<open>update()\<close> the test \<open>mag() > max\<close> of \<open>limit(MAX_SPEED)\<close> is false on the \<open>NaN\<close>
  velocity: after \<open>update()\<close> the velocity is \<open>(NaN, NaN)\<close>, and its magnitude is not at most
  \<open>MAX_SPEED\<close>.
\<close>

theorem update_coincident_velocity:
  "finite_vector (position (coincident 0)) \<and> finite_vector (velocity (coincident 0)) \<and>
   finite_vector (acceleration (coincident 0)) \<and>
   velocity (update (applyOrbForces params0 (flock params0 coincident 0 [0, 1]) [])) =
     \<lparr>vx = NaN, vy = NaN\<rparr> \<and>
   \<not> jle (Vector_mag (velocity (update (applyOrbForces params0 (flock params0 coincident 0 [0, 1]) []))))
          MAX_SPEED"
  unfolding applyOrbForces.simps update_coincident
  by (simp add: Vector_mag_def coincident_def boid_at_def finite_vector_def)

text \<open>
  Claim C8, at the input where the code breaks it.  For the same two boids the
  acceleration that \<open>flock\<close> has accumulated when \<open>update()\<close> is called is \<open>(NaN, NaN)\<close>, and
  \<open>acceleration.mult(0)\<close> leaves it \<open>(NaN, NaN)\<close>: after \<open>update()\<close> the acceleration is not
  the zero vector.
\<close>

theorem update_coincident_acceleration:
  "finite_vector (acceleration (coincident 0)) \<and>
   acceleration (applyOrbForces params0 (flock params0 coincident 0 [0, 1]) []) = \<lparr>vx = NaN, vy = NaN\<rparr> \<and>
   acceleration (update (applyOrbForces params0 (flock params0 coincident 0 [0, 1]) [])) =
     \<lparr>vx = NaN, vy = NaN\<rparr> \<and>
   acceleration (update (applyOrbForces params0 (flock params0 coincident 0 [0, 1]) [])) \<noteq>
     \<lparr>vx = Num 0, vy = Num 0\<rparr>"
proof -
  have before: "acceleration (flock params0 coincident 0 [0, 1]) = \<lparr>vx = NaN, vy = NaN\<rparr>"
    unfolding flock_coincident by simp
  have after: "acceleration (update (flock params0 coincident 0 [0, 1])) = \<lparr>vx = NaN, vy = NaN\<rparr>"
    unfolding update_coincident by simp
  have start: "finite_vector (acceleration (coincident 0))"
    by (simp add: coincident_def boid_at_def finite_vector_def)
  show ?thesis
    unfolding applyOrbForces.simps before after using start by simp
qed

section \<open>Separation\<close>

subsection \<open>Finite results\<close>

lemma is_finite_jadd [simp]: "is_finite (jadd a b) \<longleftrightarrow> is_finite a \<and> is_finite b"
  by (cases a; cases b) simp_all

lemma is_finite_jneg [simp]: "is_finite (jneg a) \<longleftrightarrow> is_finite a"
  by (cases a) simp_all

lemma is_finite_jsub [simp]: "is_finite (jsub a b) \<longleftrightarrow> is_finite a \<and> is_finite b"
  by (simp add: jsub_def)

lemma is_finite_jmul_self [simp]: "is_finite (jmul a a) \<longleftrightarrow> is_finite a"
  by (cases a) simp_all

lemma jless_jsqrt_finite: "jless (jsqrt a) m \<Longrightarrow> is_finite a"
  by (cases a; cases m) (simp_all split: if_splits)

lemma in_range_finite:
  assumes "jless (Vector_dist p q) m"
  shows "finite_vector p \<and> finite_vector q"
  using jless_jsqrt_finite [OF assms [unfolded Vector_dist_def]]
  by (simp add: finite_vector_def)

lemma Vector_dist_Num:
  "Vector_dist \<lparr>vx = Num a, vy = Num b\<rparr> \<lparr>vx = Num c, vy = Num d\<rparr> =
     Num (sqrt ((a - c) * (a - c) + (b - d) * (b - d)))"
  by (simp add: Vector_dist_def jsub_def not_less)

lemma finite_Vector_add: "finite_vector v \<Longrightarrow> finite_vector w \<Longrightarrow> finite_vector (Vector_add v w)"
  by (simp add: finite_vector_def Vector_add_def)

lemma finite_Vector_sub: "finite_vector v \<Longrightarrow> finite_vector w \<Longrightarrow> finite_vector (Vector_sub v w)"
  by (simp add: finite_vector_def Vector_sub_def)

lemma finite_Vector_div: "finite_vector v \<Longrightarrow> c \<noteq> 0 \<Longrightarrow> finite_vector (Vector_div v (Num c))"
  by (auto simp: finite_vector_iff Vector_div_Num)

lemma finite_Vector_setMag: "finite_vector v \<Longrightarrow> finite_vector (Vector_setMag v (Num m))"
  by (auto simp: finite_vector_iff Vector_setMag_Num)

lemma finite_Vector_copy: "finite_vector v \<Longrightarrow> Vector_copy v = v"
  by (auto simp: finite_vector_iff Vector_copy_Num)

lemma finite_Vector_new_zero: "finite_vector (Vector_new (Num 0) (Num 0))"
  by (simp add: finite_vector_def Vector_new_def or_zero_def)

text \<open>The quotient the separation loop adds for one neighbour in range at positive distance.\<close>

lemma separation_term_finite:
  assumes "jless (Vector_dist p q) m" and "jless (Num 0) (Vector_dist p q)"
  shows "finite_vector (Vector_div (Vector_sub (Vector_copy p) q)
           (jmul (Vector_dist p q) (Vector_dist p q)))"
proof -
  from in_range_finite [OF assms(1)] obtain a b c d
    where p: "p = \<lparr>vx = Num a, vy = Num b\<rparr>" and q: "q = \<lparr>vx = Num c, vy = Num d\<rparr>"
    by (auto simp: finite_vector_iff)
  let ?r = "sqrt ((a - c) * (a - c) + (b - d) * (b - d))"
  have "0 < ?r" using assms(2) by (simp add: p q Vector_dist_Num)
  then have "?r \<noteq> 0" by linarith
  then have "?r * ?r \<noteq> 0" by (simp only: mult_eq_0_iff) simp
  then show ?thesis
    unfolding p q Vector_dist_Num Vector_copy_Num Vector_sub_Num jmul.simps
    by (rule finite_Vector_div [rotated]) (simp add: finite_vector_def)
qed

lemma separation_loop_finite:
  assumes "finite_vector steering"
    and "\<forall>other \<in> set rs. other \<noteq> self \<and>
           jless (Vector_dist (position (h self)) (position (h other))) ds \<longrightarrow>
           jless (Num 0) (Vector_dist (position (h self)) (position (h other)))"
  shows "finite_vector (fst (separation_loop h self ds rs (steering, tot)))"
  using assms
proof (induction rs arbitrary: steering tot)
  case Nil
  then show ?case by simp
next
  case (Cons other rest)
  show ?case
  proof (cases "other \<noteq> self \<and> jless (Vector_dist (position (h self)) (position (h other))) ds")
    case True
    then have pos: "jless (Num 0) (Vector_dist (position (h self)) (position (h other)))"
      using Cons.prems(2) by simp
    have "finite_vector (Vector_add steering
            (Vector_div (Vector_sub (Vector_copy (position (h self))) (position (h other)))
               (jmul (Vector_dist (position (h self)) (position (h other)))
                     (Vector_dist (position (h self)) (position (h other))))))"
      using Cons.prems(1) True pos by (intro finite_Vector_add separation_term_finite) auto
    from Cons.IH [OF this] Cons.prems(2) True show ?thesis
      by (simp add: Let_def)
  next
    case False
    from Cons.IH [OF Cons.prems(1)] Cons.prems(2) False show ?thesis
      by (auto simp: Let_def)
  qed
qed


lemma sqrt_25: "sqrt 25 = 5"
  using real_sqrt_abs2 [of 5] by simp



subsection \<open>A neighbour at distance zero\<close>

text \<open>
  Claim C2, at the input where the code breaks it.  Two boids at the same position are
  within the range of separation of each other (their distance 0 is below 12), and the
  vector \<open>separation\<close> returns for them has \<open>NaN\<close> components: its magnitude is not at most
  \<open>MAX_FORCE\<close>.
\<close>

theorem separation_coincident:
  "0 \<noteq> (1 :: ref) \<and>
   jless (Vector_dist (position (coincident 0)) (position (coincident 1)))
         (jmul (bsize (coincident 0)) (Num 6)) \<and>
   separation coincident 0 [0, 1] = \<lparr>vx = NaN, vy = NaN\<rparr> \<and>
   \<not> jle (Vector_mag (separation coincident 0 [0, 1])) MAX_FORCE"
  unfolding sep_coincident
  by (simp add: coincident_def boid_at_def Vector_dist_Num Vector_mag_def)

subsection \<open>Agreement with the specification\<close>

text \<open>The loop as a fold over the neighbours in range.\<close>

lemma separation_loop_fold:
  "separation_loop h self ds rs (steering, tot) =
     (foldl Vector_add steering
        (map (\<lambda>other. Vector_div (Vector_sub (position (h self)) (position (h other)))
                (jmul (Vector_dist (position (h self)) (position (h other)))
                      (Vector_dist (position (h self)) (position (h other)))))
           (filter (\<lambda>other. other \<noteq> self \<and>
              jless (Vector_dist (position (h self)) (position (h other))) ds) rs)),
      tot + length (filter (\<lambda>other. other \<noteq> self \<and>
              jless (Vector_dist (position (h self)) (position (h other))) ds) rs))"
proof (induction rs arbitrary: steering tot)
  case Nil
  then show ?case by simp
next
  case (Cons other rest)
  show ?case
  proof (cases "other \<noteq> self \<and> jless (Vector_dist (position (h self)) (position (h other))) ds")
    case True
    then have "Vector_copy (position (h self)) = position (h self)"
      using in_range_finite finite_Vector_copy by blast
    then show ?thesis using True by (simp add: Let_def Cons.IH)
  next
    case False
    then show ?thesis by (auto simp: Let_def Cons.IH)
  qed
qed

lemma finite_or_nan_add:
  "finite_or_nan v \<Longrightarrow> finite_or_nan w \<Longrightarrow> finite_or_nan (Vector_add v w)"
  by (auto simp: finite_or_nan_def finite_vector_iff Vector_add_def)

lemma finite_or_nan_foldl:
  "finite_or_nan v \<Longrightarrow> \<forall>w \<in> set ws. finite_or_nan w \<Longrightarrow> finite_or_nan (foldl Vector_add v ws)"
  by (induction ws arbitrary: v) (simp_all add: finite_or_nan_add)

lemma finite_or_nan_div:
  "finite_or_nan v \<Longrightarrow> c \<noteq> 0 \<Longrightarrow> finite_or_nan (Vector_div v (Num c))"
  by (auto simp: finite_or_nan_def finite_vector_iff Vector_div_def)

lemma separation_quotient_finite_or_nan:
  assumes "jless (Vector_dist p q) m"
  shows "finite_or_nan (Vector_div (Vector_sub p q) (jmul (Vector_dist p q) (Vector_dist p q)))"
proof -
  from in_range_finite [OF assms] obtain a b c d
    where p: "p = \<lparr>vx = Num a, vy = Num b\<rparr>" and q: "q = \<lparr>vx = Num c, vy = Num d\<rparr>"
    by (auto simp: finite_vector_iff)
  let ?s = "(a - c) * (a - c) + (b - d) * (b - d)"
  show ?thesis
  proof (cases "?s = 0")
    case True
    then have "a - c = 0" "b - d = 0"
      by (simp_all only: sum_squares_eq_zero_iff)
    then show ?thesis
      by (simp add: p q Vector_dist_Num Vector_sub_Num Vector_div_def finite_or_nan_def)
  next
    case False
    then have "sqrt ?s * sqrt ?s \<noteq> 0" by simp
    then show ?thesis
      unfolding p q Vector_dist_Num Vector_sub_Num jmul.simps finite_or_nan_def
      by (intro disjI1 finite_Vector_div) (simp_all add: finite_vector_def)
  qed
qed

lemma normalize_finite_or_nan:
  assumes "finite_or_nan v"
  shows "Vector_normalize v = spec_normalize v"
proof (cases "finite_vector v")
  case True
  then obtain a b where v: "v = \<lparr>vx = Num a, vy = Num b\<rparr>"
    by (auto simp: finite_vector_iff)
  have "0 \<le> sqrt (a * a + b * b)" by simp
  then have "(0 < sqrt (a * a + b * b)) = (sqrt (a * a + b * b) \<noteq> 0)" by linarith
  then show ?thesis
    by (simp only: v Vector_normalize_def spec_normalize_def Vector_mag_Num Let_def jless.simps jsnum.inject)
       simp
next
  case False
  then have "v = \<lparr>vx = NaN, vy = NaN\<rparr>" using assms by (simp add: finite_or_nan_def)
  then show ?thesis
    by (simp add: Vector_normalize_def spec_normalize_def Vector_mag_def Vector_div_def)
qed

lemma limit_is_clamp:
  assumes "0 \<le> m"
  shows "Vector_limit v (Num m) = spec_clampMagnitude v (Num m)"
proof (cases "jless (Num m) (Vector_mag v)")
  case True
  then have "jless (Num 0) (Vector_mag v) \<and> Vector_mag v \<noteq> Num 0"
    using assms by (cases "Vector_mag v") auto
  then show ?thesis using True
    by (simp add: Vector_limit_def spec_clampMagnitude_def Vector_setMag_def spec_withMagnitude_def
        Vector_normalize_def spec_normalize_def Let_def)
next
  case False
  then show ?thesis by (simp add: Vector_limit_def spec_clampMagnitude_def)
qed

lemma separation_is_reference: "separation h self boids = separation_reference h self boids"
proof -
  let ?p = "position (h self)"
  let ?ds = "jmul (bsize (h self)) (Num 6)"
  let ?near = "filter (\<lambda>other. other \<noteq> self \<and> jless (Vector_dist ?p (position (h other))) ?ds) boids"
  let ?quot = "map (\<lambda>other. Vector_div (Vector_sub ?p (position (h other)))
                        (jmul (Vector_dist ?p (position (h other))) (Vector_dist ?p (position (h other))))) ?near"
  let ?acc = "foldl Vector_add \<lparr>vx = Num 0, vy = Num 0\<rparr> ?quot"
  have zero: "Vector_new (Num 0) (Num 0) = \<lparr>vx = Num 0, vy = Num 0\<rparr>"
    by (simp add: Vector_new_def or_zero_def)
  have loop: "separation_loop h self ?ds boids (\<lparr>vx = Num 0, vy = Num 0\<rparr>, 0) = (?acc, length ?near)"
    by (simp add: separation_loop_fold)
  have "\<forall>w \<in> set ?quot. finite_or_nan w"
    by (auto intro: separation_quotient_finite_or_nan)
  then have "finite_or_nan ?acc"
    by (intro finite_or_nan_foldl) (simp_all add: finite_or_nan_def finite_vector_def)
  then have norm: "Vector_normalize (Vector_div ?acc (Num (real (length ?near)))) =
      spec_normalize (Vector_div ?acc (Num (real (length ?near))))" if "0 < length ?near"
    using that by (intro normalize_finite_or_nan finite_or_nan_div) simp_all
  have lim: "\<And>v. Vector_limit v MAX_FORCE = spec_clampMagnitude v MAX_FORCE"
    unfolding MAX_FORCE_def by (rule limit_is_clamp) simp
  have "separation h self boids =
      (if 0 < length ?near then
         Vector_limit (Vector_sub (Vector_setMag (Vector_div ?acc (Num (real (length ?near)))) MAX_SPEED)
           (velocity (h self))) MAX_FORCE
       else ?acc)"
    by (simp only: separation_def zero loop Let_def prod.case)
  also have "\<dots> =
      (if 0 < length ?near then
         spec_clampMagnitude (Vector_sub (spec_withMagnitude (Vector_div ?acc (Num (real (length ?near)))) MAX_SPEED)
           (velocity (h self))) MAX_FORCE
       else \<lparr>vx = Num 0, vy = Num 0\<rparr>)"
    by (simp add: lim Vector_setMag_def spec_withMagnitude_def norm)
  also have "\<dots> = separation_reference h self boids"
    by (simp only: separation_reference_def Let_def)
  finally show ?thesis .
qed




section \<open>Orb forces\<close>

lemma unit_direction_scaled:
  fixes dx dy s :: real
  assumes "0 < dx * dx + dy * dy"
  shows "sqrt ((dx / sqrt (dx * dx + dy * dy) * s) * (dx / sqrt (dx * dx + dy * dy) * s) +
               (dy / sqrt (dx * dx + dy * dy) * s) * (dy / sqrt (dx * dx + dy * dy) * s)) = \<bar>s\<bar>"
proof -
  have sq: "sqrt (dx * dx + dy * dy) * sqrt (dx * dx + dy * dy) = dx * dx + dy * dy"
    using assms by simp
  have nz: "dx * dx + dy * dy \<noteq> 0" using assms by linarith
  show ?thesis
    by (simp only: scaled_squares [OF sq nz] real_sqrt_abs2)
qed

lemma orb_limit:
  fixes dx dy s :: real
  assumes "0 < dx * dx + dy * dy" and "s \<noteq> 0"
  shows "Vector_limit \<lparr>vx = Num (dx / sqrt (dx * dx + dy * dy) * s),
                       vy = Num (dy / sqrt (dx * dx + dy * dy) * s)\<rparr> (Num (1 / 2)) =
         \<lparr>vx = Num ((if 1 / 2 < \<bar>s\<bar> then s / \<bar>s\<bar> / 2 else s) * (dx / sqrt (dx * dx + dy * dy))),
          vy = Num ((if 1 / 2 < \<bar>s\<bar> then s / \<bar>s\<bar> / 2 else s) * (dy / sqrt (dx * dx + dy * dy)))\<rparr>"
  by (simp only: Vector_limit_Num unit_direction_scaled [OF assms(1)]) (simp add: field_simps)

lemma orb_force_value:
  assumes pb: "position b = \<lparr>vx = Num px, vy = Num py\<rparr>"
    and po: "orb_position orb = \<lparr>vx = Num ox, vy = Num oy\<rparr>"
    and r: "r = sqrt ((ox - px) * (ox - px) + (oy - py) * (oy - py))"
    and lo: "1 < r"
    and hi: "jless (Num r) (jmul (PERCEPTION_RADIUS P) (Num 2))"
  shows "applyOrbForce P b orb =
           b\<lparr>acceleration := Vector_add (acceleration b)
               \<lparr>vx = Num (orb_factor (orb_type orb) r * ((ox - px) / r)),
                vy = Num (orb_factor (orb_type orb) r * ((oy - py) / r))\<rparr>\<rparr>"
proof -
  let ?dx = "ox - px" and ?dy = "oy - py"
  have sym: "(px - ox) * (px - ox) + (py - oy) * (py - oy) = ?dx * ?dx + ?dy * ?dy"
    by (simp add: algebra_simps)
  have d: "Vector_dist (position b) (orb_position orb) = Num r"
    by (simp only: pb po Vector_dist_Num sym r)
  have pos: "0 < ?dx * ?dx + ?dy * ?dy"
    using lo unfolding r by (smt (verit) real_sqrt_gt_0_iff)
  have rpos: "0 < r" "r \<noteq> 0" using lo by simp_all
  have dir: "Vector_normalize (Vector_sub (Vector_copy (orb_position orb)) (position b)) =
      \<lparr>vx = Num (?dx / r), vy = Num (?dy / r)\<rparr>"
    by (simp only: po pb Vector_copy_Num Vector_sub_Num Vector_normalize_Num r)
  have strength: "(if orb_type orb = Attractor then jdiv ORB_STRENGTH (Num r) else jdiv (jneg ORB_STRENGTH) (Num r)) =
      Num (if orb_type orb = Attractor then 40 / r else - 40 / r)"
    using rpos by (simp add: ORB_STRENGTH_def)
  let ?s = "if orb_type orb = Attractor then 40 / r else - 40 / r"
  have snz: "?s \<noteq> 0" using rpos by simp
  have abs_s: "\<bar>?s\<bar> = 40 / r" using rpos by simp
  have fac: "(if 1 / 2 < \<bar>?s\<bar> then ?s / \<bar>?s\<bar> / 2 else ?s) = orb_factor (orb_type orb) r"
    unfolding abs_s using rpos by (simp add: orb_factor_def min_def field_simps)
  have lim: "Vector_limit (Vector_mult \<lparr>vx = Num (?dx / r), vy = Num (?dy / r)\<rparr> (Num ?s)) MAX_FORCE =
      \<lparr>vx = Num (orb_factor (orb_type orb) r * (?dx / r)), vy = Num (orb_factor (orb_type orb) r * (?dy / r))\<rparr>"
    unfolding Vector_mult_Num MAX_FORCE_def r
    by (simp only: orb_limit [OF pos snz [unfolded r]] fac [unfolded r])
  show ?thesis
    using lo hi
    by (simp only: applyOrbForce_def d Let_def dir strength lim applyForce_def jless.simps) simp
qed

lemma orb_out_of_range:
  assumes "\<not> (jless (Num 1) (Vector_dist (position b) (orb_position orb)) \<and>
              jless (Vector_dist (position b) (orb_position orb)) (jmul (PERCEPTION_RADIUS P) (Num 2)))"
  shows "applyOrbForce P b orb = b"
  unfolding applyOrbForce_def Let_def using assms by (rule if_not_P)

lemma unit_direction:
  fixes dx dy :: real
  assumes "0 < dx * dx + dy * dy"
  shows "dx / sqrt (dx * dx + dy * dy) * (dx / sqrt (dx * dx + dy * dy)) +
         dy / sqrt (dx * dx + dy * dy) * (dy / sqrt (dx * dx + dy * dy)) = 1"
proof -
  have sq: "sqrt (dx * dx + dy * dy) * sqrt (dx * dx + dy * dy) = dx * dx + dy * dy"
    using assms by simp
  have nz: "dx * dx + dy * dy \<noteq> 0" using assms by linarith
  from scaled_squares [OF sq nz, of 1] show ?thesis by simp
qed

lemma orb_force_properties:
  fixes dx dy r k :: real
  assumes r: "r = sqrt (dx * dx + dy * dy)" and lo: "1 < r"
    and k: "k = (if t = Attractor then min (40 / r) (1 / 2) else - min (40 / r) (1 / 2))"
  shows "sqrt (k * (dx / r) * (k * (dx / r)) + k * (dy / r) * (k * (dy / r))) = min (40 / r) (1 / 2)"
    and "t = Attractor \<Longrightarrow> 0 < k * (dx / r) * (dx / r) + k * (dy / r) * (dy / r)"
    and "t \<noteq> Attractor \<Longrightarrow> k * (dx / r) * (dx / r) + k * (dy / r) * (dy / r) < 0"
proof -
  have pos: "0 < dx * dx + dy * dy"
    using lo unfolding r by (smt (verit) real_sqrt_gt_0_iff)
  have u: "dx / r * (dx / r) + dy / r * (dy / r) = 1"
    unfolding r by (rule unit_direction [OF pos])
  have m: "0 < min (40 / r) (1 / 2)" using lo by simp
  have "k * (dx / r) * (k * (dx / r)) + k * (dy / r) * (k * (dy / r)) =
      k * k * (dx / r * (dx / r) + dy / r * (dy / r))"
    by (simp add: algebra_simps)
  then have "sqrt (k * (dx / r) * (k * (dx / r)) + k * (dy / r) * (k * (dy / r))) = \<bar>k\<bar>"
    by (simp only: u mult_1_right real_sqrt_abs2)
  also have "\<bar>k\<bar> = min (40 / r) (1 / 2)" using m by (simp add: k)
  finally show "sqrt (k * (dx / r) * (k * (dx / r)) + k * (dy / r) * (k * (dy / r))) = min (40 / r) (1 / 2)" .
  have dot: "k * (dx / r) * (dx / r) + k * (dy / r) * (dy / r) = k * (dx / r * (dx / r) + dy / r * (dy / r))"
    by (simp add: algebra_simps)
  show "t = Attractor \<Longrightarrow> 0 < k * (dx / r) * (dx / r) + k * (dy / r) * (dy / r)"
    using m by (simp only: dot u) (simp add: k)
  show "t \<noteq> Attractor \<Longrightarrow> k * (dx / r) * (dx / r) + k * (dy / r) * (dy / r) < 0"
    using m by (simp only: dot u) (simp add: k)
qed

text \<open>
  Claim C4, amended.  For every boid and every orb, with \<open>d\<close> the distance between the
  boid's position and the orb's: the body of the loop of \<open>applyOrbForces\<close> changes the boid
  exactly when \<open>1 < d < 2 * PERCEPTION_RADIUS\<close>, both bounds exclusive.  Outside this range
  the boid is unchanged.  Inside it both positions are finite, \<open>d\<close> is the Euclidean
  distance \<open>r\<close>, and the acceleration gains the unit direction towards the orb scaled by
  \<open>k = min (ORB_STRENGTH / r) MAX_FORCE\<close> for an attractor and by \<open>-k\<close> for a repulsor, that
  is, scaled by \<open>\<plusminus>ORB_STRENGTH / r\<close> and clamped to magnitude \<open>MAX_FORCE\<close>: the force has
  magnitude \<open>min (40 / r) (1 / 2)\<close>, a positive dot product with the direction to the orb for
  an attractor and a negative one for a repulsor.  The loop applies the body to each orb
  in turn and never changes the position.
\<close>

theorem applyOrbForce_range:
  "(\<not> (jless (Num 1) (Vector_dist (position b) (orb_position orb)) \<and>
        jless (Vector_dist (position b) (orb_position orb)) (jmul (PERCEPTION_RADIUS P) (Num 2))) \<longrightarrow>
      applyOrbForce P b orb = b) \<and>
   (jless (Num 1) (Vector_dist (position b) (orb_position orb)) \<and>
    jless (Vector_dist (position b) (orb_position orb)) (jmul (PERCEPTION_RADIUS P) (Num 2)) \<longrightarrow>
      (\<exists>px py ox oy r k.
         position b = \<lparr>vx = Num px, vy = Num py\<rparr> \<and>
         orb_position orb = \<lparr>vx = Num ox, vy = Num oy\<rparr> \<and>
         r = sqrt ((ox - px) * (ox - px) + (oy - py) * (oy - py)) \<and>
         Vector_dist (position b) (orb_position orb) = Num r \<and> 1 < r \<and>
         k = (if orb_type orb = Attractor then min (40 / r) (1 / 2) else - min (40 / r) (1 / 2)) \<and>
         applyOrbForce P b orb =
           b\<lparr>acceleration := Vector_add (acceleration b)
               \<lparr>vx = Num (k * ((ox - px) / r)), vy = Num (k * ((oy - py) / r))\<rparr>\<rparr> \<and>
         sqrt (k * ((ox - px) / r) * (k * ((ox - px) / r)) + k * ((oy - py) / r) * (k * ((oy - py) / r))) =
           min (40 / r) (1 / 2) \<and>
         (orb_type orb = Attractor \<longrightarrow>
            0 < k * ((ox - px) / r) * ((ox - px) / r) + k * ((oy - py) / r) * ((oy - py) / r)) \<and>
         (orb_type orb = Repulsor \<longrightarrow>
            k * ((ox - px) / r) * ((ox - px) / r) + k * ((oy - py) / r) * ((oy - py) / r) < 0)))"
proof (intro conjI impI)
  assume "\<not> (jless (Num 1) (Vector_dist (position b) (orb_position orb)) \<and>
        jless (Vector_dist (position b) (orb_position orb)) (jmul (PERCEPTION_RADIUS P) (Num 2)))"
  then show "applyOrbForce P b orb = b" by (rule orb_out_of_range)
next
  assume inr: "jless (Num 1) (Vector_dist (position b) (orb_position orb)) \<and>
    jless (Vector_dist (position b) (orb_position orb)) (jmul (PERCEPTION_RADIUS P) (Num 2))"
  then have "jless (Vector_dist (position b) (orb_position orb)) (jmul (PERCEPTION_RADIUS P) (Num 2))"
    by simp
  then have "finite_vector (position b) \<and> finite_vector (orb_position orb)"
    by (rule in_range_finite)
  then obtain px py ox oy where pb: "position b = \<lparr>vx = Num px, vy = Num py\<rparr>"
    and po: "orb_position orb = \<lparr>vx = Num ox, vy = Num oy\<rparr>"
    unfolding finite_vector_iff by blast
  define r where "r = sqrt ((ox - px) * (ox - px) + (oy - py) * (oy - py))"
  define k where "k = (if orb_type orb = Attractor then min (40 / r) (1 / 2) else - min (40 / r) (1 / 2))"
  have sym: "(px - ox) * (px - ox) + (py - oy) * (py - oy) = (ox - px) * (ox - px) + (oy - py) * (oy - py)"
    by (simp add: algebra_simps)
  have d: "Vector_dist (position b) (orb_position orb) = Num r"
    by (simp only: pb po Vector_dist_Num sym r_def)
  have lo: "1 < r" and hi: "jless (Num r) (jmul (PERCEPTION_RADIUS P) (Num 2))"
    using inr by (simp_all add: d)
  have val: "applyOrbForce P b orb =
      b\<lparr>acceleration := Vector_add (acceleration b)
          \<lparr>vx = Num (k * ((ox - px) / r)), vy = Num (k * ((oy - py) / r))\<rparr>\<rparr>"
    using orb_force_value [OF pb po r_def lo hi] by (simp only: orb_factor_def k_def)
  have rep: "orb_type orb = Repulsor \<Longrightarrow> orb_type orb \<noteq> Attractor" by simp
  note props = orb_force_properties [OF r_def lo k_def]
  show "\<exists>px py ox oy r k.
         position b = \<lparr>vx = Num px, vy = Num py\<rparr> \<and>
         orb_position orb = \<lparr>vx = Num ox, vy = Num oy\<rparr> \<and>
         r = sqrt ((ox - px) * (ox - px) + (oy - py) * (oy - py)) \<and>
         Vector_dist (position b) (orb_position orb) = Num r \<and> 1 < r \<and>
         k = (if orb_type orb = Attractor then min (40 / r) (1 / 2) else - min (40 / r) (1 / 2)) \<and>
         applyOrbForce P b orb =
           b\<lparr>acceleration := Vector_add (acceleration b)
               \<lparr>vx = Num (k * ((ox - px) / r)), vy = Num (k * ((oy - py) / r))\<rparr>\<rparr> \<and>
         sqrt (k * ((ox - px) / r) * (k * ((ox - px) / r)) + k * ((oy - py) / r) * (k * ((oy - py) / r))) =
           min (40 / r) (1 / 2) \<and>
         (orb_type orb = Attractor \<longrightarrow>
            0 < k * ((ox - px) / r) * ((ox - px) / r) + k * ((oy - py) / r) * ((oy - py) / r)) \<and>
         (orb_type orb = Repulsor \<longrightarrow>
            k * ((ox - px) / r) * ((ox - px) / r) + k * ((oy - py) / r) * ((oy - py) / r) < 0)"
    using pb po r_def d lo k_def val props(1) props(2) props(3) [OF rep] by blast
qed

lemma sqrt_2500: "sqrt 2500 = 50"
  using real_sqrt_abs2 [of 50] by simp

theorem applyOrbForce_range_witness:
  "jless (Num 1) (Vector_dist (position (boid_at 0 0 0 0)) (orb_position (orb_at 30 40 Attractor))) \<and>
   jless (Vector_dist (position (boid_at 0 0 0 0)) (orb_position (orb_at 30 40 Attractor)))
     (jmul (PERCEPTION_RADIUS params0) (Num 2)) \<and>
   applyOrbForce params0 (boid_at 0 0 0 0) (orb_at 30 40 Attractor) =
     (boid_at 0 0 0 0)\<lparr>acceleration := \<lparr>vx = Num (3 / 10), vy = Num (2 / 5)\<rparr>\<rparr> \<and>
   jless (Num 1) (Vector_dist (position (boid_at 0 0 0 0)) (orb_position (orb_at 30 40 Repulsor))) \<and>
   jless (Vector_dist (position (boid_at 0 0 0 0)) (orb_position (orb_at 30 40 Repulsor)))
     (jmul (PERCEPTION_RADIUS params0) (Num 2)) \<and>
   applyOrbForce params0 (boid_at 0 0 0 0) (orb_at 30 40 Repulsor) =
     (boid_at 0 0 0 0)\<lparr>acceleration := \<lparr>vx = Num (- 3 / 10), vy = Num (- 2 / 5)\<rparr>\<rparr> \<and>
   \<not> jless (Vector_dist (position (boid_at 0 0 0 0)) (orb_position (orb_at 300 400 Attractor)))
     (jmul (PERCEPTION_RADIUS params0) (Num 2)) \<and>
   applyOrbForce params0 (boid_at 0 0 0 0) (orb_at 300 400 Attractor) = boid_at 0 0 0 0"
proof -
  have d: "Vector_dist (position (boid_at 0 0 0 0)) (orb_position (orb_at 30 40 t)) = Num 50" for t
    by (simp add: boid_at_def orb_at_def Vector_dist_Num sqrt_2500)
  have inr: "jless (Num 1) (Vector_dist (position (boid_at 0 0 0 0)) (orb_position (orb_at 30 40 t))) \<and>
      jless (Vector_dist (position (boid_at 0 0 0 0)) (orb_position (orb_at 30 40 t)))
        (jmul (PERCEPTION_RADIUS params0) (Num 2))" for t
    by (simp add: d params0_def)
  have att: "applyOrbForce params0 (boid_at 0 0 0 0) (orb_at 30 40 Attractor) =
      (boid_at 0 0 0 0)\<lparr>acceleration := \<lparr>vx = Num (3 / 10), vy = Num (2 / 5)\<rparr>\<rparr>"
    using applyOrbForce_range [of "boid_at 0 0 0 0" "orb_at 30 40 Attractor" params0] inr [of Attractor]
    by (auto simp: boid_at_def orb_at_def sqrt_2500 Vector_add_Num)
  have rep: "applyOrbForce params0 (boid_at 0 0 0 0) (orb_at 30 40 Repulsor) =
      (boid_at 0 0 0 0)\<lparr>acceleration := \<lparr>vx = Num (- 3 / 10), vy = Num (- 2 / 5)\<rparr>\<rparr>"
    using applyOrbForce_range [of "boid_at 0 0 0 0" "orb_at 30 40 Repulsor" params0] inr [of Repulsor]
    by (auto simp: boid_at_def orb_at_def sqrt_2500 Vector_add_Num)
  have "sqrt 250000 = 500"
    using real_sqrt_abs2 [of 500] by simp
  then have far: "\<not> jless (Vector_dist (position (boid_at 0 0 0 0)) (orb_position (orb_at 300 400 Attractor)))
      (jmul (PERCEPTION_RADIUS params0) (Num 2))"
    by (simp add: boid_at_def orb_at_def Vector_dist_Num params0_def)
  then have out: "applyOrbForce params0 (boid_at 0 0 0 0) (orb_at 300 400 Attractor) = boid_at 0 0 0 0"
    using applyOrbForce_range [of "boid_at 0 0 0 0" "orb_at 300 400 Attractor" params0] by blast
  show ?thesis using inr att rep far out by blast
qed

text \<open>
  The claim as stated, with the lower bound 1 inclusive, fails: an orb at distance exactly
  1 applies no force.
\<close>

theorem applyOrbForce_distance_one:
  "Vector_dist (position (boid_at 0 0 0 0)) (orb_position (orb_at 1 0 Attractor)) = Num 1 \<and>
   jless (Num 1) (jmul (PERCEPTION_RADIUS params0) (Num 2)) \<and>
   applyOrbForces params0 (boid_at 0 0 0 0) [orb_at 1 0 Attractor] = boid_at 0 0 0 0"
  by (simp add: boid_at_def orb_at_def Vector_dist_Num params0_def applyOrbForce_def)

section \<open>The order of updates within a frame\<close>

lemma animate_loop_append:
  "animate_loop P canvas orbs boids h (xs @ ys) =
     animate_loop P canvas orbs boids (animate_loop P canvas orbs boids h xs) ys"
  by (induction xs arbitrary: h) simp_all

lemma animate_loop_other:
  "q \<notin> set rs \<Longrightarrow> animate_loop P canvas orbs boids h rs q = h q"
  by (induction rs arbitrary: h) simp_all

lemma animate_from_scanned:
  assumes "i < length boids"
  shows "animate P canvas orbs boids h =
     animate_loop P canvas orbs boids
       ((scanned_store P canvas orbs boids h i)
          (boids ! i := boid_step P canvas orbs boids (scanned_store P canvas orbs boids h i) (boids ! i)))
       (drop (Suc i) boids)"
proof -
  have "boids = take i boids @ boids ! i # drop (Suc i) boids"
    using assms by (rule id_take_nth_drop)
  then have "animate P canvas orbs boids h =
      animate_loop P canvas orbs boids h (take i boids @ boids ! i # drop (Suc i) boids)"
    by (simp add: animate_def)
  then show ?thesis
    by (simp only: animate_loop_append animate_loop.simps scanned_store_def)
qed

text \<open>
  Claim C5, amended.  The population array is not changed during a frame, but its boids
  are updated in place, one after the other.  For a population of distinct boids, the
  boid at index \<open>i\<close> ends the frame in the state that its step computes from the store it
  scans; in that store the boids from index \<open>i\<close> on still have their state of the start of
  the frame, and the boids before index \<open>i\<close> already have their state of the end of the
  frame.
\<close>

theorem animate_scans_updated_store:
  assumes "distinct boids" and "i < length boids"
  shows "animate P canvas orbs boids h (boids ! i) =
           boid_step P canvas orbs boids (scanned_store P canvas orbs boids h i) (boids ! i) \<and>
         (\<forall>j. i \<le> j \<and> j < length boids \<longrightarrow>
            scanned_store P canvas orbs boids h i (boids ! j) = h (boids ! j)) \<and>
         (\<forall>j. j < i \<longrightarrow>
            scanned_store P canvas orbs boids h i (boids ! j) = animate P canvas orbs boids h (boids ! j))"
proof (intro conjI allI impI)
  have "boids ! i \<notin> set (drop (Suc i) boids)"
    using assms by (auto simp: in_set_conv_nth distinct_conv_nth)
  then show "animate P canvas orbs boids h (boids ! i) =
      boid_step P canvas orbs boids (scanned_store P canvas orbs boids h i) (boids ! i)"
    by (simp add: animate_from_scanned [OF assms(2)] animate_loop_other)
next
  fix j assume j: "i \<le> j \<and> j < length boids"
  then have "boids ! j \<notin> set (take i boids)"
    using assms by (auto simp: in_set_conv_nth distinct_conv_nth)
  then show "scanned_store P canvas orbs boids h i (boids ! j) = h (boids ! j)"
    by (simp add: scanned_store_def animate_loop_other)
next
  fix j assume j: "j < i"
  then have "boids ! j \<notin> set (drop i boids)"
    using assms by (auto simp: in_set_conv_nth distinct_conv_nth)
  moreover have "animate P canvas orbs boids h =
      animate_loop P canvas orbs boids (scanned_store P canvas orbs boids h i) (drop i boids)"
    using animate_loop_append [of P canvas orbs boids h "take i boids" "drop i boids"]
    by (simp add: animate_def scanned_store_def)
  ultimately show "scanned_store P canvas orbs boids h i (boids ! j) = animate P canvas orbs boids h (boids ! j)"
    by (simp add: animate_loop_other)
qed

theorem animate_scans_updated_store_witness:
  "distinct [0, 1 :: ref] \<and> 1 < length [0, 1 :: ref] \<and>
   animate params0 canvas0 [] [0, 1] approach 1 =
     boid_step params0 canvas0 [] [0, 1] (scanned_store params0 canvas0 [] [0, 1] approach 1) 1 \<and>
   scanned_store params0 canvas0 [] [0, 1] approach 1 1 = approach 1 \<and>
   scanned_store params0 canvas0 [] [0, 1] approach 1 0 = animate params0 canvas0 [] [0, 1] approach 0"
proof -
  have h: "distinct [0, 1 :: ref]" "1 < length [0, 1 :: ref]" by simp_all
  note T = animate_scans_updated_store [OF h, of params0 canvas0 "[]" approach]
  from T have later: "\<And>j. 1 \<le> j \<and> j < length [0, 1 :: ref] \<Longrightarrow>
      scanned_store params0 canvas0 [] [0, 1] approach 1 ([0, 1] ! j) = approach ([0, 1] ! j)"
    by blast
  from T have earlier: "\<And>j. j < 1 \<Longrightarrow>
      scanned_store params0 canvas0 [] [0, 1] approach 1 ([0, 1] ! j) =
      animate params0 canvas0 [] [0, 1] approach ([0, 1] ! j)"
    by blast
  have "scanned_store params0 canvas0 [] [0, 1] approach 1 1 = approach 1"
    using later [of 1] by simp
  moreover have "scanned_store params0 canvas0 [] [0, 1] approach 1 0 =
      animate params0 canvas0 [] [0, 1] approach 0"
    using earlier [of 0] by simp
  moreover have "animate params0 canvas0 [] [0, 1] approach 1 =
     boid_step params0 canvas0 [] [0, 1] (scanned_store params0 canvas0 [] [0, 1] approach 1) 1"
    using T by simp
  ultimately show ?thesis using h by simp
qed

text \<open>
  The claim as stated, that every scan observes the other boids as they were at the start
  of the frame, fails.  Boid 0 at \<open>(0, 40)\<close> with velocity \<open>(5, 0)\<close> and boid 1 at rest at
  \<open>(50, 40)\<close> are out of each other's perception radius 50 when the frame starts.  Boid 0
  is stepped first and moves to \<open>(5, 40)\<close>; the scan of boid 1 then finds it at distance
  45, and the alignment steering of boid 1 is \<open>(1/2, 0)\<close>, not the zero vector that the
  positions of the start of the frame give.
\<close>

lemma sqrt_2025: "sqrt 2025 = 45"
  using real_sqrt_abs2 [of 45] by simp

lemmas vector_ops = Vector_dist_def jsub_def Vector_copy_def Vector_new_def or_zero_def
  Vector_sub_def Vector_div_def Vector_add_def Vector_setMag_def Vector_normalize_def
  Vector_mag_def Vector_mult_def Vector_limit_def MAX_SPEED_def MAX_FORCE_def

lemma approach_step:
  "boid_step params0 canvas0 [] [0, 1] approach 0 = boid_at 5 40 5 0"
proof -
  have sep: "separation approach 0 [0, 1] = \<lparr>vx = Num 0, vy = Num 0\<rparr>"
    by (simp add: separation_def approach_def boid_at_def Let_def vector_ops sqrt_2500)
  have ali: "alignment params0 approach 0 [0, 1] = \<lparr>vx = Num 0, vy = Num 0\<rparr>"
    by (simp add: alignment_def approach_def boid_at_def params0_def Let_def vector_ops sqrt_2500)
  have coh: "cohesion params0 approach 0 [0, 1] = \<lparr>vx = Num 0, vy = Num 0\<rparr>"
    by (simp add: cohesion_def approach_def boid_at_def params0_def Let_def vector_ops sqrt_2500)
  have fl: "flock params0 approach 0 [0, 1] = boid_at 0 40 5 0"
    unfolding flock_def sep ali coh Let_def
    by (simp add: applyForce_def Vector_mult_def Vector_add_def params0_def approach_def boid_at_def)
  show ?thesis
    unfolding boid_step_def fl applyOrbForces.simps
    by (simp add: update_def edges_def canvas0_def params0_def boid_at_def Let_def vector_ops sqrt_25)
qed

lemma approach_scanned:
  "scanned_store params0 canvas0 [] [0, 1] approach 1 = approach(0 := boid_at 5 40 5 0)"
  by (simp add: scanned_store_def approach_step [unfolded One_nat_def])

theorem animate_scan_counterexample:
  "position (approach 0) = \<lparr>vx = Num 0, vy = Num 40\<rparr> \<and>
   position (scanned_store params0 canvas0 [] [0, 1] approach 1 0) = \<lparr>vx = Num 5, vy = Num 40\<rparr> \<and>
   alignment params0 approach 1 [0, 1] = \<lparr>vx = Num 0, vy = Num 0\<rparr> \<and>
   alignment params0 (scanned_store params0 canvas0 [] [0, 1] approach 1) 1 [0, 1] =
     \<lparr>vx = Num (1 / 2), vy = Num 0\<rparr>"
proof -
  have a0: "alignment params0 approach 1 [0, 1] = \<lparr>vx = Num 0, vy = Num 0\<rparr>"
    by (simp add: alignment_def approach_def boid_at_def params0_def Let_def vector_ops sqrt_2500)
  have a1: "alignment params0 (approach(0 := boid_at 5 40 5 0)) 1 [0, 1] = \<lparr>vx = Num (1 / 2), vy = Num 0\<rparr>"
    by (simp add: alignment_def approach_def boid_at_def params0_def Let_def vector_ops sqrt_2025 sqrt_25)
  show ?thesis
    unfolding approach_scanned using a0 a1 by (simp add: approach_def boid_at_def)
qed

section \<open>Steering without neighbours and steering bounds\<close>

text \<open>
  With no other boid in range a rule's loop leaves \<open>steering\<close> and \<open>total\<close> as they are, and
  the rule returns the zero vector.
\<close>

lemma separation_loop_none:
  assumes "\<forall>other \<in> set rs. \<not> (other \<noteq> self \<and>
             jless (Vector_dist (position (h self)) (position (h other))) ds)"
  shows "separation_loop h self ds rs (steering, tot) = (steering, tot)"
  using assms by (induction rs) (auto simp: Let_def)

lemma alignment_loop_none:
  assumes "\<forall>other \<in> set rs. \<not> (other \<noteq> self \<and>
             jless (Vector_dist (position (h self)) (position (h other))) (PERCEPTION_RADIUS P))"
  shows "alignment_loop P h self rs (steering, tot) = (steering, tot)"
  using assms by (induction rs) auto

lemma cohesion_loop_none:
  assumes "\<forall>other \<in> set rs. \<not> (other \<noteq> self \<and>
             jless (Vector_dist (position (h self)) (position (h other))) (PERCEPTION_RADIUS P))"
  shows "cohesion_loop P h self rs (steering, tot) = (steering, tot)"
  using assms by (induction rs) auto

lemma no_neighbour_zero_steering:
  "\<forall>other \<in> set boids. \<not> (other \<noteq> self \<and>
      jless (Vector_dist (position (h self)) (position (h other))) (jmul (bsize (h self)) (Num 6))) \<Longrightarrow>
   separation h self boids = \<lparr>vx = Num 0, vy = Num 0\<rparr>"
  "\<forall>other \<in> set boids. \<not> (other \<noteq> self \<and>
      jless (Vector_dist (position (h self)) (position (h other))) (PERCEPTION_RADIUS P)) \<Longrightarrow>
   alignment P h self boids = \<lparr>vx = Num 0, vy = Num 0\<rparr>"
  "\<forall>other \<in> set boids. \<not> (other \<noteq> self \<and>
      jless (Vector_dist (position (h self)) (position (h other))) (PERCEPTION_RADIUS P)) \<Longrightarrow>
   cohesion P h self boids = \<lparr>vx = Num 0, vy = Num 0\<rparr>"
  by (simp_all add: separation_def alignment_def cohesion_def separation_loop_none
      alignment_loop_none cohesion_loop_none Let_def Vector_new_def or_zero_def)

lemma limited_force_bound:
  assumes "finite_vector w"
  shows "jle (Vector_mag (Vector_limit w MAX_FORCE)) MAX_FORCE"
proof -
  from assms obtain a b where "w = \<lparr>vx = Num a, vy = Num b\<rparr>"
    by (auto simp: finite_vector_iff)
  then show ?thesis
    unfolding MAX_FORCE_def by (simp only:) (rule Vector_limit_bound, simp)
qed

lemma zero_vector_bound: "jle (Vector_mag \<lparr>vx = Num 0, vy = Num 0\<rparr>) MAX_FORCE"
  by (simp add: Vector_mag_Num MAX_FORCE_def)

lemma alignment_loop_finite:
  assumes "finite_vector steering"
    and "\<forall>other \<in> set rs. other \<noteq> self \<and>
           jless (Vector_dist (position (h self)) (position (h other))) (PERCEPTION_RADIUS P) \<longrightarrow>
           finite_vector (velocity (h other))"
  shows "finite_vector (fst (alignment_loop P h self rs (steering, tot)))"
  using assms
proof (induction rs arbitrary: steering tot)
  case Nil
  then show ?case by simp
next
  case (Cons other rest)
  show ?case
  proof (cases "other \<noteq> self \<and>
      jless (Vector_dist (position (h self)) (position (h other))) (PERCEPTION_RADIUS P)")
    case True
    then have "finite_vector (Vector_add steering (velocity (h other)))"
      using Cons.prems by (intro finite_Vector_add) auto
    from Cons.IH [OF this] Cons.prems(2) True show ?thesis by simp
  next
    case False
    from Cons.IH [OF Cons.prems(1)] Cons.prems(2) False show ?thesis by auto
  qed
qed

lemma cohesion_loop_finite:
  assumes "finite_vector steering"
  shows "finite_vector (fst (cohesion_loop P h self rs (steering, tot)))"
  using assms
proof (induction rs arbitrary: steering tot)
  case Nil
  then show ?case by simp
next
  case (Cons other rest)
  show ?case
  proof (cases "other \<noteq> self \<and>
      jless (Vector_dist (position (h self)) (position (h other))) (PERCEPTION_RADIUS P)")
    case True
    then have "finite_vector (position (h other))"
      using in_range_finite by blast
    then have "finite_vector (Vector_add steering (position (h other)))"
      using Cons.prems by (intro finite_Vector_add)
    from Cons.IH [OF this] True show ?thesis by simp
  next
    case False
    from Cons.IH [OF Cons.prems(1)] False show ?thesis by auto
  qed
qed

lemma cohesion_loop_counts:
  "0 < snd (cohesion_loop P h self rs (steering, tot)) \<Longrightarrow> tot = 0 \<Longrightarrow>
   finite_vector (position (h self))"
proof (induction rs arbitrary: steering)
  case Nil
  then show ?case by simp
next
  case (Cons other rest)
  show ?case
  proof (cases "other \<noteq> self \<and>
      jless (Vector_dist (position (h self)) (position (h other))) (PERCEPTION_RADIUS P)")
    case True
    then show ?thesis using in_range_finite by blast
  next
    case False
    then show ?thesis using Cons by auto
  qed
qed

text \<open>
  The bound of claim C2 in the exact arithmetic of the model, that is, up to rounding:
  for a boid with a finite velocity, the steering of each rule has magnitude at most
  \<open>MAX_FORCE\<close>, for separation when no neighbour in range is at distance zero, and for
  alignment when the neighbours in range have finite velocities.
\<close>

lemma separation_bound:
  assumes "\<forall>other \<in> set boids. other \<noteq> self \<and>
             jless (Vector_dist (position (h self)) (position (h other))) (jmul (bsize (h self)) (Num 6)) \<longrightarrow>
             jless (Num 0) (Vector_dist (position (h self)) (position (h other)))"
    and "finite_vector (velocity (h self))"
  shows "jle (Vector_mag (separation h self boids)) MAX_FORCE"
proof -
  obtain steering tot where loop:
    "separation_loop h self (jmul (bsize (h self)) (Num 6)) boids (Vector_new (Num 0) (Num 0), 0) = (steering, tot)"
    by (cases "separation_loop h self (jmul (bsize (h self)) (Num 6)) boids (Vector_new (Num 0) (Num 0), 0)")
  have fin: "finite_vector steering"
    using separation_loop_finite [OF finite_Vector_new_zero assms(1), of 0] by (simp add: loop)
  show ?thesis
  proof (cases "0 < tot")
    case True
    then have "real tot \<noteq> 0" by simp
    then have "finite_vector (Vector_sub (Vector_setMag (Vector_div steering (Num (real tot))) MAX_SPEED)
        (velocity (h self)))"
      using fin assms(2) by (simp add: MAX_SPEED_def finite_Vector_div finite_Vector_setMag finite_Vector_sub)
    from limited_force_bound [OF this] True show ?thesis
      by (simp add: separation_def loop Let_def)
  next
    case False
    then have "separation_loop h self (jmul (bsize (h self)) (Num 6)) boids (Vector_new (Num 0) (Num 0), 0) =
        (steering, 0)" using loop by simp
    then have "steering = \<lparr>vx = Num 0, vy = Num 0\<rparr>"
      by (auto simp: separation_loop_fold Vector_new_def or_zero_def)
    then show ?thesis using False zero_vector_bound by (simp add: separation_def loop Let_def)
  qed
qed

lemma alignment_loop_count:
  "tot \<le> snd (alignment_loop P h self rs (steering, tot)) \<and>
   (snd (alignment_loop P h self rs (steering, tot)) = tot \<longrightarrow>
      fst (alignment_loop P h self rs (steering, tot)) = steering)"
proof (induction rs arbitrary: steering tot)
  case Nil
  then show ?case by simp
next
  case (Cons other rest)
  show ?case
  proof (cases "other \<noteq> self \<and>
      jless (Vector_dist (position (h self)) (position (h other))) (PERCEPTION_RADIUS P)")
    case True
    from Cons.IH [of "Suc tot" "Vector_add steering (velocity (h other))"] True show ?thesis
      by auto
  next
    case False
    from Cons.IH [of tot steering] False show ?thesis by auto
  qed
qed

lemma cohesion_loop_count:
  "tot \<le> snd (cohesion_loop P h self rs (steering, tot)) \<and>
   (snd (cohesion_loop P h self rs (steering, tot)) = tot \<longrightarrow>
      fst (cohesion_loop P h self rs (steering, tot)) = steering)"
proof (induction rs arbitrary: steering tot)
  case Nil
  then show ?case by simp
next
  case (Cons other rest)
  show ?case
  proof (cases "other \<noteq> self \<and>
      jless (Vector_dist (position (h self)) (position (h other))) (PERCEPTION_RADIUS P)")
    case True
    from Cons.IH [of "Suc tot" "Vector_add steering (position (h other))"] True show ?thesis
      by auto
  next
    case False
    from Cons.IH [of tot steering] False show ?thesis by auto
  qed
qed

lemma alignment_bound:
  assumes "\<forall>other \<in> set boids. other \<noteq> self \<and>
             jless (Vector_dist (position (h self)) (position (h other))) (PERCEPTION_RADIUS P) \<longrightarrow>
             finite_vector (velocity (h other))"
    and "finite_vector (velocity (h self))"
  shows "jle (Vector_mag (alignment P h self boids)) MAX_FORCE"
proof -
  obtain steering tot where loop:
    "alignment_loop P h self boids (Vector_new (Num 0) (Num 0), 0) = (steering, tot)"
    by (cases "alignment_loop P h self boids (Vector_new (Num 0) (Num 0), 0)")
  have fin: "finite_vector steering"
    using alignment_loop_finite [OF finite_Vector_new_zero assms(1), of 0] by (simp add: loop)
  show ?thesis
  proof (cases "0 < tot")
    case True
    then have "real tot \<noteq> 0" by simp
    then have "finite_vector (Vector_sub (Vector_setMag (Vector_div steering (Num (real tot))) MAX_SPEED)
        (velocity (h self)))"
      using fin assms(2) by (simp add: MAX_SPEED_def finite_Vector_div finite_Vector_setMag finite_Vector_sub)
    from limited_force_bound [OF this] True show ?thesis
      by (simp add: alignment_def loop Let_def)
  next
    case False
    then have "steering = Vector_new (Num 0) (Num 0)"
      using alignment_loop_count [of 0 P h self boids "Vector_new (Num 0) (Num 0)"]
      by (simp add: loop)
    then have "steering = \<lparr>vx = Num 0, vy = Num 0\<rparr>"
      by (simp add: Vector_new_def or_zero_def)
    then show ?thesis using False zero_vector_bound by (simp add: alignment_def loop Let_def)
  qed
qed

lemma cohesion_bound:
  assumes "finite_vector (velocity (h self))"
  shows "jle (Vector_mag (cohesion P h self boids)) MAX_FORCE"
proof -
  obtain steering tot where loop:
    "cohesion_loop P h self boids (Vector_new (Num 0) (Num 0), 0) = (steering, tot)"
    by (cases "cohesion_loop P h self boids (Vector_new (Num 0) (Num 0), 0)")
  have fin: "finite_vector steering"
    using cohesion_loop_finite [OF finite_Vector_new_zero, of P h self boids 0] by (simp add: loop)
  show ?thesis
  proof (cases "0 < tot")
    case True
    then have "real tot \<noteq> 0" by simp
    moreover have "finite_vector (position (h self))"
      using cohesion_loop_counts [of P h self boids "Vector_new (Num 0) (Num 0)" 0] True
      by (simp add: loop)
    ultimately have "finite_vector (Vector_sub (Vector_setMag
        (Vector_sub (Vector_div steering (Num (real tot))) (position (h self))) MAX_SPEED)
        (velocity (h self)))"
      using fin assms by (simp add: MAX_SPEED_def finite_Vector_div finite_Vector_setMag finite_Vector_sub)
    from limited_force_bound [OF this] True show ?thesis
      by (simp add: cohesion_def loop Let_def)
  next
    case False
    then have "steering = Vector_new (Num 0) (Num 0)"
      using cohesion_loop_count [of 0 P h self boids "Vector_new (Num 0) (Num 0)"]
      by (simp add: loop)
    then have "steering = \<lparr>vx = Num 0, vy = Num 0\<rparr>"
      by (simp add: Vector_new_def or_zero_def)
    then show ?thesis using False zero_vector_bound by (simp add: cohesion_def loop Let_def)
  qed
qed

section \<open>The loop over the orbs\<close>

text \<open>The loop of \<open>applyOrbForces\<close> changes the acceleration only.\<close>

lemma applyOrbForces_keeps:
  "position (applyOrbForces P b orbs) = position b \<and> velocity (applyOrbForces P b orbs) = velocity b \<and>
   bsize (applyOrbForces P b orbs) = bsize b \<and> color (applyOrbForces P b orbs) = color b"
proof (induction orbs arbitrary: b)
  case Nil
  then show ?case by simp
next
  case (Cons orb rest)
  have "position (applyOrbForce P b orb) = position b \<and> velocity (applyOrbForce P b orb) = velocity b \<and>
      bsize (applyOrbForce P b orb) = bsize b \<and> color (applyOrbForce P b orb) = color b"
    by (simp add: applyOrbForce_def Let_def applyForce_def)
  then show ?case using Cons.IH [of "applyOrbForce P b orb"] by simp
qed

section \<open>Separation with a neighbour at distance zero, in general\<close>

lemma add_nan_left: "Vector_add \<lparr>vx = NaN, vy = NaN\<rparr> w = \<lparr>vx = NaN, vy = NaN\<rparr>"
  by (simp add: Vector_add_def)

lemma add_nan_right: "Vector_add v \<lparr>vx = NaN, vy = NaN\<rparr> = \<lparr>vx = NaN, vy = NaN\<rparr>"
  by (cases "vx v"; cases "vy v") (simp_all add: Vector_add_def)

lemma foldl_add_from_nan: "foldl Vector_add \<lparr>vx = NaN, vy = NaN\<rparr> ws = \<lparr>vx = NaN, vy = NaN\<rparr>"
  by (induction ws) (simp_all add: add_nan_left)

lemma foldl_add_nan:
  "\<lparr>vx = NaN, vy = NaN\<rparr> \<in> set ws \<Longrightarrow> foldl Vector_add v ws = \<lparr>vx = NaN, vy = NaN\<rparr>"
proof (induction ws arbitrary: v)
  case Nil
  then show ?case by simp
next
  case (Cons w ws)
  show ?case
  proof (cases "w = \<lparr>vx = NaN, vy = NaN\<rparr>")
    case True
    then show ?thesis by (simp add: add_nan_right foldl_add_from_nan)
  next
    case False
    then show ?thesis using Cons by simp
  qed
qed

lemma zero_distance_quotient:
  assumes "Vector_dist p q = Num 0"
  shows "Vector_div (Vector_sub p q) (jmul (Vector_dist p q) (Vector_dist p q)) = \<lparr>vx = NaN, vy = NaN\<rparr>"
proof -
  have "jless (Vector_dist p q) (Num 1)" by (simp add: assms)
  from in_range_finite [OF this] obtain a b c d
    where p: "p = \<lparr>vx = Num a, vy = Num b\<rparr>" and q: "q = \<lparr>vx = Num c, vy = Num d\<rparr>"
    by (auto simp: finite_vector_iff)
  from assms have "(a - c) * (a - c) + (b - d) * (b - d) = 0"
    by (simp add: p q Vector_dist_Num)
  then have "a - c = 0" "b - d = 0"
    by (simp_all only: sum_squares_eq_zero_iff)
  then show ?thesis
    by (simp add: p q Vector_dist_Num Vector_sub_Num Vector_div_def)
qed

text \<open>
  Whenever another boid in range is at distance zero, \<open>separation\<close> returns the vector with
  both components \<open>NaN\<close>, whatever the rest of the population and the boid's velocity are.
\<close>

lemma separation_nan:
  assumes "other \<in> set boids" and "other \<noteq> self"
    and "Vector_dist (position (h self)) (position (h other)) = Num 0"
    and "jless (Num 0) (jmul (bsize (h self)) (Num 6))"
  shows "separation h self boids = \<lparr>vx = NaN, vy = NaN\<rparr>"
proof -
  let ?p = "position (h self)"
  let ?ds = "jmul (bsize (h self)) (Num 6)"
  let ?near = "filter (\<lambda>other. other \<noteq> self \<and> jless (Vector_dist ?p (position (h other))) ?ds) boids"
  let ?quot = "map (\<lambda>other. Vector_div (Vector_sub ?p (position (h other)))
                        (jmul (Vector_dist ?p (position (h other))) (Vector_dist ?p (position (h other))))) ?near"
  have near: "other \<in> set ?near" using assms by simp
  then have pos: "0 < length ?near" by (rule length_pos_if_in_set)
  have "\<lparr>vx = NaN, vy = NaN\<rparr> \<in> set ?quot"
    using near zero_distance_quotient [OF assms(3)] by (force simp: image_iff)
  then have acc: "foldl Vector_add \<lparr>vx = Num 0, vy = Num 0\<rparr> ?quot = \<lparr>vx = NaN, vy = NaN\<rparr>"
    by (rule foldl_add_nan)
  show ?thesis
    unfolding separation_is_reference separation_reference_def Let_def acc
    using pos
    by (simp add: spec_clampMagnitude_def spec_withMagnitude_def spec_normalize_def Vector_mag_def
        Vector_div_def Vector_mult_def Vector_sub_def jsub_def MAX_SPEED_def MAX_FORCE_def)
qed

end
